theory Spec2Isabelle
  imports Complex_Main "HOL-Library.Word" "HOL-Library.AList"
begin

section \<open>Data model\<close>

text \<open>
  The Go sources are \<^verbatim>\<open>pkg/parser/parser.go\<close> (the sample), \<^verbatim>\<open>pkg/trend/trend.go\<close>
  (the trend engine), \<^verbatim>\<open>pkg/summary/summary.go\<close> (the running summary) and
  \<^verbatim>\<open>cmd/analyzer/main.go\<close> (the orchestrator).

  Conventions of the embedding:
  \<^item> \<^verbatim>\<open>float64\<close> is the type \<open>real\<close>: arithmetic is exact, there is no rounding, no
    overflow and no special value. The one place where the code divides by a value that can
    be zero without a guard (\<^verbatim>\<open>Update\<close> of the summary) uses the type \<open>float64\<close> below,
    which adds the special values of IEEE 754.
  \<^item> \<^verbatim>\<open>int64\<close> and \<^verbatim>\<open>uint64\<close> are \<open>64 word\<close>, read with \<open>sint\<close> and \<open>uint\<close>.
  \<^item> Go's \<^verbatim>\<open>int\<close> (window sizes, counters) is \<open>int\<close>; the one multiplication that can
    overflow (\<^verbatim>\<open>window * 10\<close>) has its wrap-around written out. The width of \<^verbatim>\<open>int\<close>
    and the allocation limit of the runtime are parameters (the record \<open>platform\<close>):
    the README builds the program for 32-bit ARM, for ARM64 and for x86.
  \<^item> A Go map is an association list; a \<^verbatim>\<open>range\<close> loop over the map visits the entries in
    the order of the list. Go leaves the order unspecified, and every theorem below holds
    for every association list, hence for every order.
  \<^item> A field name that occurs in several Go structs carries a prefix naming its struct.
  \<^item> Timestamps are left out: no modelled function reads them.
\<close>

type_synonym int64 = "64 word"
type_synonym uint64 = "64 word"

record CPU =
  cpu_User :: real
  cpu_Sys :: real
  cpu_Nice :: real
  cpu_Idle :: real
  cpu_IO :: real
  cpu_IRQ :: real
  cpu_SIRQ :: real

record Memory =
  mem_Total :: int64
  mem_Used :: int64
  mem_Free :: int64
  mem_Shared :: int64
  mem_Buffers :: int64
  mem_Cached :: int64

record LoadAverage =
  load_One :: real
  load_Five :: real
  load_Fifteen :: real

record Process =
  PID :: int
  PPID :: int
  proc_User :: string
  Priority :: int
  proc_Nice :: int
  VSZ :: int64
  VSZPercent :: real
  RSS :: int64
  State :: string
  proc_CPU :: int
  CPUPercent :: real
  MemPercent :: real
  Time :: string
  Command :: string

record FilesystemStats =
  fs_Device :: string
  fs_Size :: int64
  fs_Used :: int64
  fs_Available :: int64
  UsedPct :: real
  fs_MountPoint :: string
  fs_Critical :: bool

record TemperatureStats =
  Sensors :: "(string \<times> real) list"

text \<open>\<open>Filesystem\<close> is \<open>None\<close> for Go's nil map.\<close>

record SystemStats =
  CPU :: CPU
  Memory :: Memory
  LoadAverage :: LoadAverage
  Processes :: "Process list"
  Temperature :: TemperatureStats
  Filesystem :: "(string \<times> FilesystemStats) list option"

text \<open>The zero value of \<^verbatim>\<open>FilesystemStats\<close>, which Go returns for a missing map key.\<close>

definition zero_FilesystemStats :: FilesystemStats where
  "zero_FilesystemStats =
     \<lparr>fs_Device = [], fs_Size = 0, fs_Used = 0, fs_Available = 0, UsedPct = 0,
      fs_MountPoint = [], fs_Critical = False\<rparr>"

subsection \<open>The trend report\<close>

record Metric =
  Mean :: real
  StdDev :: real
  Trend :: real
  Anomaly :: bool

record SensorTrend = Metric +
  t_Max :: real
  t_Min :: real
  AbsoluteThreshold :: real
  ThresholdExceeded :: bool

record TemperatureTrend = SensorTrend +
  t_Sensors :: "(string \<times> SensorTrend) list"

record PartitionTrend = Metric +
  p_Min :: real
  p_Max :: real
  Current :: real
  Critical :: bool
  Device :: string
  MountPoint :: string

record FilesystemTrend =
  Partitions :: "(string \<times> PartitionTrend) list"
  f_Anomaly :: bool
  f_Critical :: bool

record Trend =
  CPUUsage :: Metric
  MemoryUsage :: Metric
  ProcessCount :: Metric
  t_Temperature :: TemperatureTrend
  t_Filesystem :: FilesystemTrend
  SystemStress :: real

record TrendAnalyzer =
  history :: "SystemStats list"
  window :: int
  tempHistory :: "(string \<times> real list) list"
  longTermTempHistory :: "(string \<times> real list) list"
  anomalyThreshold :: real
  trendThreshold :: real
  tempThreshold :: real
  longTermWindow :: int

section \<open>Statistics (trend.go)\<close>

text \<open>\<^verbatim>\<open>sqrt\<close>: ten Newton steps from \<open>z = 1\<close>.\<close>

fun sqrt_iter :: "nat \<Rightarrow> real \<Rightarrow> real \<Rightarrow> real" where
  "sqrt_iter 0 x z = z"
| "sqrt_iter (Suc i) x z = sqrt_iter i x (z - (z * z - x) / (2 * z))"

definition sqrt_go :: "real \<Rightarrow> real" where
  "sqrt_go x = sqrt_iter 10 x 1"

definition min_go :: "real \<Rightarrow> real \<Rightarrow> real" where
  "min_go a b = (if a < b then a else b)"

text \<open>\<^verbatim>\<open>calculateStats\<close>: the two loops are left folds.\<close>

definition calculateStats :: "real list \<Rightarrow> real \<times> real" where
  "calculateStats values =
     (if length values = 0 then (0, 0)
      else
        let sum = foldl (\<lambda>sum v. sum + v) 0 values;
            mean = sum / real (length values);
            sumSq = foldl (\<lambda>sumSq v. let diff = v - mean in sumSq + diff * diff) 0 values;
            stdDev = sqrt_go (sumSq / real (length values))
        in (mean, stdDev))"

text \<open>
  \<^verbatim>\<open>calculateTrend\<close>: the loop carries the index and the four sums; the slope divides by
  \<open>n * sumX2 - sumX * sumX\<close>.
\<close>

fun trend_sums :: "nat \<Rightarrow> real list \<Rightarrow> real \<times> real \<times> real \<times> real \<Rightarrow> real \<times> real \<times> real \<times> real" where
  "trend_sums i [] acc = acc"
| "trend_sums i (y # ys) (sumX, sumY, sumXY, sumX2) =
     (let x = real i
      in trend_sums (Suc i) ys (sumX + x, sumY + y, sumXY + x * y, sumX2 + x * x))"

definition trend_numerator :: "real list \<Rightarrow> real" where
  "trend_numerator values =
     (let n = real (length values);
          (sumX, sumY, sumXY, sumX2) = trend_sums 0 values (0, 0, 0, 0)
      in n * sumXY - sumX * sumY)"

definition trend_denominator :: "real list \<Rightarrow> real" where
  "trend_denominator values =
     (let n = real (length values);
          (sumX, sumY, sumXY, sumX2) = trend_sums 0 values (0, 0, 0, 0)
      in n * sumX2 - sumX * sumX)"

definition calculateTrend :: "real list \<Rightarrow> real" where
  "calculateTrend values =
     (if length values < 2 then 0
      else trend_numerator values / trend_denominator values)"

definition detectAnomalyWithThreshold :: "real list \<Rightarrow> real \<Rightarrow> real \<Rightarrow> real \<Rightarrow> bool" where
  "detectAnomalyWithThreshold values mean stdDev threshold =
     (if length values = 0 \<or> stdDev = 0 then False
      else
        let lastValue = last values;
            zScore = (lastValue - mean) / stdDev
        in zScore > threshold \<or> zScore < - threshold)"

definition detectTrendAnomaly :: "real \<Rightarrow> real \<Rightarrow> bool" where
  "detectTrendAnomaly trend trendThr = (\<bar>trend\<bar> > trendThr)"

section \<open>The trend engine (trend.go)\<close>

subsection \<open>Constructors\<close>

text \<open>
  The platform the program runs on. Go's \<^verbatim>\<open>int\<close> has \<open>int_bits\<close> bits (32 or 64) and a
  pointer is as wide as an \<^verbatim>\<open>int\<close>; the runtime refuses an allocation of more than
  \<open>max_alloc\<close> bytes. The Go runtime is not part of the repository, so both are
  parameters of the model.
\<close>

record platform =
  int_bits :: nat
  max_alloc :: int

definition ptr_size :: "platform \<Rightarrow> int" where
  "ptr_size p = int (int_bits p div 8)"

definition float64_size :: int where
  "float64_size = 8"

text \<open>
  \<^verbatim>\<open>make([]T, 0, cap)\<close> panics (\<^verbatim>\<open>makeslice: cap out of range\<close>) when \<open>cap\<close> is negative
  or \<open>cap\<close> elements need more than \<open>max_alloc\<close> bytes. (Running out of the memory of
  the machine below that limit ends the process and is outside the model.)
\<close>

datatype panic = MakeSliceCapOutOfRange

definition make_slice :: "platform \<Rightarrow> int \<Rightarrow> int \<Rightarrow> panic + 'a list" where
  "make_slice p elem_size cap =
     (if cap < 0 \<or> elem_size * cap > max_alloc p then Inl MakeSliceCapOutOfRange else Inr [])"

text \<open>The value of a signed \<^verbatim>\<open>int\<close> after an operation whose exact result is \<open>i\<close>.\<close>

definition wrap_int :: "platform \<Rightarrow> int \<Rightarrow> int" where
  "wrap_int p i = (i + 2 ^ (int_bits p - 1)) mod 2 ^ int_bits p - 2 ^ (int_bits p - 1)"

definition New :: "platform \<Rightarrow> int \<Rightarrow> panic + TrendAnalyzer" where
  "New p w =
     (case make_slice p (ptr_size p) w of
        Inl e \<Rightarrow> Inl e
      | Inr h \<Rightarrow>
          Inr \<lparr>history = h, window = w, tempHistory = [], longTermTempHistory = [],
               anomalyThreshold = 2, trendThreshold = 0.1, tempThreshold = 70,
               longTermWindow = 100\<rparr>)"

definition NewWithOptions :: "platform \<Rightarrow> int \<Rightarrow> real \<Rightarrow> real \<Rightarrow> panic + TrendAnalyzer" where
  "NewWithOptions p w anomalyThr trendThr =
     (case make_slice p (ptr_size p) w of
        Inl e \<Rightarrow> Inl e
      | Inr h \<Rightarrow>
          Inr \<lparr>history = h, window = w, tempHistory = [], longTermTempHistory = [],
               anomalyThreshold = anomalyThr, trendThreshold = trendThr, tempThreshold = 70,
               longTermWindow = wrap_int p (w * 10)\<rparr>)"

definition NewWithFullOptions ::
  "platform \<Rightarrow> int \<Rightarrow> real \<Rightarrow> real \<Rightarrow> real \<Rightarrow> int \<Rightarrow> panic + TrendAnalyzer" where
  "NewWithFullOptions p w anomalyThr trendThr tempThr longTermW =
     (case make_slice p (ptr_size p) w of
        Inl e \<Rightarrow> Inl e
      | Inr h \<Rightarrow>
          Inr \<lparr>history = h, window = w, tempHistory = [], longTermTempHistory = [],
               anomalyThreshold = anomalyThr, trendThreshold = trendThr, tempThreshold = tempThr,
               longTermWindow = longTermW\<rparr>)"

subsection \<open>AddStats\<close>

text \<open>
  The pattern \<^verbatim>\<open>s = append(s, x); if len(s) > bound { s = s[1:] }\<close>, which \<^verbatim>\<open>AddStats\<close>
  applies to the history and to both series of every sensor.
\<close>

definition append_evict :: "int \<Rightarrow> 'a list \<Rightarrow> 'a \<Rightarrow> 'a list" where
  "append_evict bound xs x =
     (let ys = xs @ [x] in if int (length ys) > bound then tl ys else ys)"

text \<open>The body of the loop over \<^verbatim>\<open>stats.Temperature.Sensors\<close>.\<close>

definition addSensor :: "platform \<Rightarrow> TrendAnalyzer \<Rightarrow> string \<times> real \<Rightarrow> panic + TrendAnalyzer" where
  "addSensor p t entry =
     (case entry of (name, temp) \<Rightarrow>
        (case (case map_of (tempHistory t) name of
                 Some h \<Rightarrow> Inr h
               | None \<Rightarrow> make_slice p float64_size (window t)) of
           Inl e \<Rightarrow> Inl e
         | Inr short \<Rightarrow>
             let t1 = t\<lparr>tempHistory :=
                        AList.update name (append_evict (window t) short temp) (tempHistory t)\<rparr>
             in (case (case map_of (longTermTempHistory t1) name of
                         Some h \<Rightarrow> Inr h
                       | None \<Rightarrow> make_slice p float64_size (longTermWindow t1)) of
                   Inl e \<Rightarrow> Inl e
                 | Inr long \<Rightarrow>
                     Inr (t1\<lparr>longTermTempHistory :=
                               AList.update name (append_evict (longTermWindow t1) long temp)
                                 (longTermTempHistory t1)\<rparr>))))"

fun addSensors :: "platform \<Rightarrow> TrendAnalyzer \<Rightarrow> (string \<times> real) list \<Rightarrow> panic + TrendAnalyzer" where
  "addSensors p t [] = Inr t"
| "addSensors p t (entry # entries) =
     (case addSensor p t entry of
        Inl e \<Rightarrow> Inl e
      | Inr t' \<Rightarrow> addSensors p t' entries)"

definition AddStats :: "platform \<Rightarrow> TrendAnalyzer \<Rightarrow> SystemStats \<Rightarrow> panic + TrendAnalyzer" where
  "AddStats p t stats =
     addSensors p (t\<lparr>history := append_evict (window t) (history t) stats\<rparr>)
       (Sensors (Temperature stats))"

text \<open>A run of calls, stopping at the first panic.\<close>

fun AddStats_all :: "platform \<Rightarrow> TrendAnalyzer \<Rightarrow> SystemStats list \<Rightarrow> panic + TrendAnalyzer" where
  "AddStats_all p t [] = Inr t"
| "AddStats_all p t (stats # rest) =
     (case AddStats p t stats of
        Inl e \<Rightarrow> Inl e
      | Inr t' \<Rightarrow> AddStats_all p t' rest)"

text \<open>The analyzers the program can reach: built by a constructor, then fed samples.\<close>

inductive reachable :: "platform \<Rightarrow> TrendAnalyzer \<Rightarrow> bool" where
  constructed: "NewWithFullOptions p w a tr tt ltw = Inr t \<Longrightarrow> reachable p t"
| constructed_opts: "NewWithOptions p w a tr = Inr t \<Longrightarrow> reachable p t"
| constructed_new: "New p w = Inr t \<Longrightarrow> reachable p t"
| added: "reachable p t \<Longrightarrow> AddStats p t stats = Inr t' \<Longrightarrow> reachable p t'"

text \<open>The bounds of the spec: every series is within its capacity.\<close>

definition within_bounds :: "TrendAnalyzer \<Rightarrow> bool" where
  "within_bounds t \<longleftrightarrow>
     int (length (history t)) \<le> window t \<and>
     list_all (\<lambda>(name, series). int (length series) \<le> window t) (tempHistory t) \<and>
     list_all (\<lambda>(name, series). int (length series) \<le> longTermWindow t) (longTermTempHistory t)"

text \<open>A sensor's series and its length; a sensor never seen has the empty series.\<close>

definition series_of :: "(string \<times> real list) list \<Rightarrow> string \<Rightarrow> real list" where
  "series_of m name = (case map_of m name of None \<Rightarrow> [] | Some values \<Rightarrow> values)"

definition series_length :: "(string \<times> real list) list \<Rightarrow> string \<Rightarrow> nat" where
  "series_length m name = (case map_of m name of None \<Rightarrow> 0 | Some values \<Rightarrow> length values)"

text \<open>
  The insertion of the spec into a bounded series: the value is appended, and when the
  series was already at its capacity its oldest (first) element is removed.
\<close>

definition fifo_push :: "int \<Rightarrow> 'a list \<Rightarrow> 'a \<Rightarrow> 'a list" where
  "fifo_push bound old x = (if int (length old) < bound then old @ [x] else tl (old @ [x]))"

subsection \<open>calculateSystemStress\<close>

text \<open>The body of the loop over \<^verbatim>\<open>trend.Filesystem.Partitions\<close>, in two parts.\<close>

definition partition_tier :: "string \<Rightarrow> PartitionTrend \<Rightarrow> real" where
  "partition_tier mountPoint fs =
     (if Critical fs then
        (if mountPoint = ''/'' then 30
         else if mountPoint = ''/boot'' then 25
         else 15)
      else if Current fs < 20 then
        (if mountPoint = ''/'' then 15
         else if mountPoint = ''/boot'' then 10
         else 5)
      else 0)"

definition partition_slope_tier :: "PartitionTrend \<Rightarrow> real" where
  "partition_slope_tier fs =
     (if Trend fs < - 1 then 15
      else if Trend fs < - 0.5 then 5
      else 0)"

definition partition_risk :: "real \<Rightarrow> string \<times> PartitionTrend \<Rightarrow> real" where
  "partition_risk risk entry =
     (case entry of (mountPoint, fs) \<Rightarrow>
        risk + partition_tier mountPoint fs + partition_slope_tier fs)"

text \<open>
  The factors of \<^verbatim>\<open>calculateSystemStress\<close>, one per \<^verbatim>\<open>if\<close> chain of the source, each
  giving the amount that the chain adds to \<^verbatim>\<open>risk\<close>.
\<close>

definition cpu_tier :: "Trend \<Rightarrow> real" where
  "cpu_tier trend =
     (if Mean (CPUUsage trend) > 20 then 20
      else if Mean (CPUUsage trend) > 10 then 10
      else 0)"

definition memory_tier :: "Trend \<Rightarrow> real" where
  "memory_tier trend =
     (if Mean (MemoryUsage trend) > 90 then 30
      else if Mean (MemoryUsage trend) > 80 then 20
      else if Mean (MemoryUsage trend) > 70 then 10
      else 0)"

definition process_tier :: "Trend \<Rightarrow> real" where
  "process_tier trend =
     (if Mean (ProcessCount trend) > 100 then 20
      else if Mean (ProcessCount trend) > 50 then 10
      else 0)"

definition process_anomaly_tier :: "Trend \<Rightarrow> real" where
  "process_anomaly_tier trend = (if Anomaly (ProcessCount trend) then 20 else 0)"

definition cpu_anomaly_tier :: "Trend \<Rightarrow> real" where
  "cpu_anomaly_tier trend = (if Anomaly (CPUUsage trend) then 20 else 0)"

definition temperature_tier :: "Trend \<Rightarrow> real" where
  "temperature_tier trend =
     (if ThresholdExceeded (t_Temperature trend) then 50
      else if t_Max (t_Temperature trend) > 60 then 20
      else if t_Max (t_Temperature trend) > 50 then 10
      else if t_Max (t_Temperature trend) < - 20 then 20
      else if t_Max (t_Temperature trend) < - 10 then 10
      else 0)"

definition temperature_anomaly_tier :: "Trend \<Rightarrow> real" where
  "temperature_anomaly_tier trend =
     (if Anomaly (t_Temperature trend) \<and> \<not> ThresholdExceeded (t_Temperature trend)
      then 15 else 0)"

definition filesystem_tier :: "Trend \<Rightarrow> real" where
  "filesystem_tier trend =
     (if f_Critical (t_Filesystem trend) then 40
      else if f_Anomaly (t_Filesystem trend) then 20
      else 0)"

text \<open>The accumulated \<^verbatim>\<open>risk\<close> before the final \<^verbatim>\<open>min\<close>.\<close>

definition accumulated_risk :: "Trend \<Rightarrow> real" where
  "accumulated_risk trend =
     (let risk = 0;
          risk = risk + cpu_tier trend;
          risk = risk + memory_tier trend;
          risk = risk + process_tier trend;
          risk = risk + process_anomaly_tier trend;
          risk = risk + cpu_anomaly_tier trend;
          risk = risk + temperature_tier trend;
          risk = risk + temperature_anomaly_tier trend;
          risk = risk + filesystem_tier trend
      in foldl partition_risk risk (Partitions (t_Filesystem trend)))"

definition calculateSystemStress :: "Trend \<Rightarrow> real" where
  "calculateSystemStress trend = min_go (accumulated_risk trend) 100"

subsection \<open>Analyze\<close>

text \<open>
  The mean, deviation, slope and anomaly flag of one series: the four lines that
  \<^verbatim>\<open>Analyze\<close> repeats for the CPU, the memory and the process count.
\<close>

definition metric_of :: "real list \<Rightarrow> real \<Rightarrow> real \<Rightarrow> Metric" where
  "metric_of values anomalyThr trendThr =
     (let (mean, stdDev) = calculateStats values;
          slope = calculateTrend values
      in \<lparr>Mean = mean, StdDev = stdDev, Trend = slope,
          Anomaly = (detectAnomalyWithThreshold values mean stdDev anomalyThr \<or>
                     detectTrendAnomaly slope trendThr)\<rparr>)"

definition cpuUsage :: "SystemStats \<Rightarrow> real" where
  "cpuUsage stats = cpu_User (CPU stats) + cpu_Sys (CPU stats)"

definition memUsage :: "SystemStats \<Rightarrow> real" where
  "memUsage stats =
     (if sint (mem_Total (Memory stats)) > 0
      then real_of_int (sint (mem_Used (Memory stats))) /
           real_of_int (sint (mem_Total (Memory stats))) * 100
      else 0)"

definition procCount :: "SystemStats \<Rightarrow> real" where
  "procCount stats = real (length (Processes stats))"

text \<open>The loop that finds the least and the greatest value of a series.\<close>

definition min_max :: "real \<Rightarrow> real list \<Rightarrow> real \<times> real" where
  "min_max first values =
     foldl (\<lambda>(mn, mx) v. (if v < mn then v else mn, if v > mx then v else mx))
       (first, first) values"

definition sensorStats :: "TrendAnalyzer \<Rightarrow> string \<Rightarrow> real \<Rightarrow> real list \<Rightarrow> SensorTrend" where
  "sensorStats t name first temps =
     (let (mean, stddev) = calculateStats temps;
          trendValue = calculateTrend temps;
          longTermTrend =
            (case map_of (longTermTempHistory t) name of
               Some longTermTemps \<Rightarrow>
                 if length longTermTemps > 10 then calculateTrend longTermTemps else 0
             | None \<Rightarrow> 0);
          (mn, mx) = min_max first temps;
          exceeded = (mx > tempThreshold t)
      in \<lparr>Mean = mean, StdDev = stddev, Trend = trendValue,
          Anomaly = (detectAnomalyWithThreshold temps mean stddev (anomalyThreshold t) \<or>
                     detectTrendAnomaly trendValue (trendThreshold t) \<or>
                     detectTrendAnomaly longTermTrend (trendThreshold t * 0.5) \<or>
                     exceeded),
          t_Max = mx, t_Min = mn, AbsoluteThreshold = tempThreshold t,
          ThresholdExceeded = exceeded\<rparr>)"

text \<open>
  The body of the loop over \<^verbatim>\<open>t.tempHistory\<close>; the state is the temperature block and
  the three lists \<^verbatim>\<open>allTemps\<close>, \<^verbatim>\<open>maxTemps\<close>, \<^verbatim>\<open>avgTemps\<close>.
\<close>

definition sensor_step ::
  "TrendAnalyzer \<Rightarrow> TemperatureTrend \<times> real list \<times> real list \<times> real list \<Rightarrow> string \<times> real list
   \<Rightarrow> TemperatureTrend \<times> real list \<times> real list \<times> real list" where
  "sensor_step t acc entry =
     (case (acc, entry) of ((tT, allTemps, maxTemps, avgTemps), (name, temps)) \<Rightarrow>
        (case temps of
           [] \<Rightarrow> acc
         | first # _ \<Rightarrow>
             let s = sensorStats t name first temps;
                 tT = tT\<lparr>t_Sensors := AList.update name s (t_Sensors tT)\<rparr>;
                 tT = (if t_Max s > t_Max tT then tT\<lparr>t_Max := t_Max s\<rparr> else tT);
                 tT = (if t_Min tT = 0 \<or> t_Min s < t_Min tT then tT\<lparr>t_Min := t_Min s\<rparr> else tT);
                 tT = (if ThresholdExceeded s then tT\<lparr>ThresholdExceeded := True\<rparr> else tT)
             in (tT, allTemps @ temps, maxTemps @ [t_Max s], avgTemps @ [Mean s])))"

definition analyzeTemperature :: "TrendAnalyzer \<Rightarrow> TemperatureTrend" where
  "analyzeTemperature t =
     (let tT0 = \<lparr>Mean = 0, StdDev = 0, Trend = 0, Anomaly = False, t_Max = 0, t_Min = 0,
                 AbsoluteThreshold = tempThreshold t, ThresholdExceeded = False,
                 t_Sensors = []\<rparr>;
          (tT, allTemps, maxTemps, avgTemps) =
             foldl (sensor_step t) (tT0, [], [], []) (tempHistory t);
          tT = (if length allTemps > 0 then
                  let (mean, stddev) = calculateStats allTemps;
                      tempTrendValue = calculateTrend allTemps;
                      allLongTermTemps = concat (map snd (longTermTempHistory t));
                      longTermTrend =
                        (if length allLongTermTemps > 10
                         then calculateTrend allLongTermTemps else 0)
                  in tT\<lparr>Mean := mean, StdDev := stddev, Trend := tempTrendValue,
                        Anomaly :=
                          (detectAnomalyWithThreshold allTemps mean stddev (anomalyThreshold t) \<or>
                           detectTrendAnomaly tempTrendValue (trendThreshold t) \<or>
                           detectTrendAnomaly longTermTrend (trendThreshold t * 0.5) \<or>
                           ThresholdExceeded tT)\<rparr>
                else tT);
          tT = (case maxTemps of
                  [] \<Rightarrow> tT
                | first # _ \<Rightarrow>
                    let mx = foldl (\<lambda>mx temp. if temp > mx then temp else mx) first maxTemps
                    in tT\<lparr>t_Max := mx, ThresholdExceeded := (mx > tempThreshold t)\<rparr>);
          tT = (if length avgTemps > 0
                then tT\<lparr>Mean := foldl (\<lambda>sum temp. sum + temp) 0 avgTemps /
                                  real (length avgTemps)\<rparr>
                else tT)
      in tT)"

text \<open>The free-space history of every mount point, collected over the sample history.\<close>

definition fsHistory_add :: "(string \<times> real list) list \<Rightarrow> string \<times> FilesystemStats \<Rightarrow> (string \<times> real list) list" where
  "fsHistory_add fsHistory entry =
     (case entry of (mountPoint, fs) \<Rightarrow>
        let old = (case map_of fsHistory mountPoint of None \<Rightarrow> [] | Some xs \<Rightarrow> xs);
            freePercent = 100 - UsedPct fs
        in AList.update mountPoint (old @ [freePercent]) fsHistory)"

definition collect_fsHistory :: "SystemStats list \<Rightarrow> (string \<times> real list) list" where
  "collect_fsHistory hist =
     foldl (\<lambda>fsHistory stats.
              case Filesystem stats of
                None \<Rightarrow> fsHistory
              | Some entries \<Rightarrow> foldl fsHistory_add fsHistory entries)
       [] hist"

text \<open>A map lookup, with the zero value for a missing key or a nil map.\<close>

definition lookup_fs :: "(string \<times> FilesystemStats) list option \<Rightarrow> string \<Rightarrow> FilesystemStats" where
  "lookup_fs m mountPoint =
     (case m of
        None \<Rightarrow> zero_FilesystemStats
      | Some entries \<Rightarrow>
          (case map_of entries mountPoint of
             None \<Rightarrow> zero_FilesystemStats
           | Some fs \<Rightarrow> fs))"

definition partition_step :: "TrendAnalyzer \<Rightarrow> FilesystemTrend \<Rightarrow> string \<times> real list \<Rightarrow> FilesystemTrend" where
  "partition_step t fT entry =
     (case entry of (mountPoint, freeSpaceHistory) \<Rightarrow>
        (case freeSpaceHistory of
           first # _ # _ \<Rightarrow>
             let currentFs = lookup_fs (Filesystem (last (history t))) mountPoint;
                 (mean, stddev) = calculateStats freeSpaceHistory;
                 trendValue = calculateTrend freeSpaceHistory;
                 current = 100 - UsedPct currentFs;
                 (mn, mx) = min_max first freeSpaceHistory;
                 anomaly = (detectAnomalyWithThreshold freeSpaceHistory mean stddev (anomalyThreshold t) \<or>
                            detectTrendAnomaly trendValue (trendThreshold t * 2));
                 critical = (current < 10);
                 partitionStats =
                   \<lparr>Mean = mean, StdDev = stddev, Trend = trendValue, Anomaly = anomaly,
                    p_Min = mn, p_Max = mx, Current = current, Critical = critical,
                    Device = fs_Device currentFs, MountPoint = mountPoint\<rparr>;
                 fT = fT\<lparr>Partitions := AList.update mountPoint partitionStats (Partitions fT)\<rparr>;
                 fT = (if anomaly then fT\<lparr>f_Anomaly := True\<rparr> else fT);
                 fT = (if critical then fT\<lparr>f_Critical := True\<rparr> else fT)
             in fT
         | _ \<Rightarrow> fT))"

definition analyzeFilesystem :: "TrendAnalyzer \<Rightarrow> FilesystemTrend" where
  "analyzeFilesystem t =
     (let fT0 = \<lparr>Partitions = [], f_Anomaly = False, f_Critical = False\<rparr>
      in if length (history t) > 0 \<and> Filesystem (last (history t)) \<noteq> None
         then foldl (partition_step t) fT0 (collect_fsHistory (history t))
         else fT0)"

definition Analyze :: "TrendAnalyzer \<Rightarrow> Trend option" where
  "Analyze t =
     (if length (history t) < 2 then None
      else
        let trend = \<lparr>CPUUsage = metric_of (map cpuUsage (history t)) (anomalyThreshold t) (trendThreshold t),
                     MemoryUsage = metric_of (map memUsage (history t)) (anomalyThreshold t) (trendThreshold t),
                     ProcessCount = metric_of (map procCount (history t)) (anomalyThreshold t) (trendThreshold t),
                     t_Temperature = analyzeTemperature t,
                     t_Filesystem = analyzeFilesystem t,
                     SystemStress = 0\<rparr>
        in Some (trend\<lparr>SystemStress := calculateSystemStress trend\<rparr>))"

subsection \<open>SaveSnapshot: the deduplicated copy of the history\<close>

text \<open>
  The body of the loop over \<^verbatim>\<open>stats.Processes\<close>: \<^verbatim>\<open>processMap\<close> maps a command to the
  entry kept for it.
\<close>

definition dedup_step :: "(string \<times> Process) list \<Rightarrow> Process \<Rightarrow> (string \<times> Process) list" where
  "dedup_step processMap proc =
     (case map_of processMap (Command proc) of
        Some existingProc \<Rightarrow>
          if VSZPercent proc > VSZPercent existingProc \<or> CPUPercent proc > CPUPercent existingProc
          then AList.update (Command proc) proc processMap
          else processMap
      | None \<Rightarrow> AList.update (Command proc) proc processMap)"

definition dedup_processes :: "Process list \<Rightarrow> Process list" where
  "dedup_processes procs = map snd (foldl dedup_step [] procs)"

text \<open>
  The copy of one sample: the filesystem map is copied into a fresh (non-nil) map and
  the processes are deduplicated.
\<close>

definition dedup_stats :: "SystemStats \<Rightarrow> SystemStats" where
  "dedup_stats stats =
     \<lparr>CPU = CPU stats, Memory = Memory stats, LoadAverage = LoadAverage stats,
      Processes = dedup_processes (Processes stats),
      Temperature = Temperature stats,
      Filesystem = Some (case Filesystem stats of None \<Rightarrow> [] | Some entries \<Rightarrow> entries)\<rparr>"

definition deduplicatedHistory :: "TrendAnalyzer \<Rightarrow> SystemStats list" where
  "deduplicatedHistory t = map dedup_stats (history t)"

section \<open>The running summary (summary.go)\<close>

text \<open>
  A \<^verbatim>\<open>float64\<close> with the special values of IEEE 754, for the one field that the code
  computes by an unguarded division. Rounding and signed zeros are not modelled; the
  divisor of \<open>fdiv\<close> is the conversion of an integer, so a zero divisor is \<open>+0\<close>.
\<close>

datatype float64 = Finite real | PosInf | NegInf | NaN

definition fdiv :: "real \<Rightarrow> real \<Rightarrow> float64" where
  "fdiv a b =
     (if b \<noteq> 0 then Finite (a / b)
      else if a = 0 then NaN
      else if a > 0 then PosInf
      else NegInf)"

text \<open>Multiplication by a finite non-zero constant.\<close>

fun fmul :: "float64 \<Rightarrow> real \<Rightarrow> float64" where
  "fmul (Finite a) c = Finite (a * c)"
| "fmul PosInf c = (if c > 0 then PosInf else NegInf)"
| "fmul NegInf c = (if c > 0 then NegInf else PosInf)"
| "fmul NaN c = NaN"

text \<open>The comparison \<^verbatim>\<open>x > c\<close>: false for a NaN.\<close>

fun fgt :: "float64 \<Rightarrow> real \<Rightarrow> bool" where
  "fgt (Finite a) c = (a > c)"
| "fgt PosInf c = True"
| "fgt NegInf c = False"
| "fgt NaN c = False"

record SummaryCPU =
  s_User :: real
  s_System :: real
  s_Idle :: real
  Load1 :: real
  Load5 :: real
  Load15 :: real

record SummaryMemory =
  s_Total :: uint64
  s_Used :: uint64
  s_Free :: uint64
  UsedPc :: float64

record SummarySensor =
  Value :: real
  Location :: string
  sensor_MaxTemp :: real
  sensor_AvgTemp :: real

record SummaryTemperature =
  s_Sensors :: "(string \<times> SummarySensor) list"
  MaxTemp :: real
  AvgTemp :: real
  temp_History :: "(string \<times> real list) list"

record SummaryPartition =
  sp_Device :: string
  sp_Size :: int64
  sp_Used :: int64
  sp_Available :: int64
  sp_UsedPct :: real
  FreeSpace :: real
  sp_MountPoint :: string
  sp_Critical :: bool

record SummaryFilesystem =
  s_Partitions :: "(string \<times> SummaryPartition) list"
  fs_History :: "(string \<times> real list) list"

record HighCPUProc =
  Name :: string
  hp_CPUPercent :: real

record SummaryProcesses =
  Total :: int
  Running :: int
  Sleeping :: int
  Uninterr :: int
  Zombie :: int
  HighCPU :: int
  HighMem :: int
  HighCPUProcs :: "HighCPUProc list"

record SystemSummary =
  LastCrashFile :: string
  s_CPU :: SummaryCPU
  s_Memory :: SummaryMemory
  s_Temperature :: SummaryTemperature
  s_Filesystem :: SummaryFilesystem
  s_Processes :: SummaryProcesses
  s_SystemStress :: real

text \<open>The body of the loop over \<^verbatim>\<open>s.Filesystem.Partitions\<close>.\<close>

definition summary_partition_tier :: "string \<Rightarrow> SummaryPartition \<Rightarrow> real" where
  "summary_partition_tier mount part =
     (if FreeSpace part < 10 then
        (if mount = ''/'' then 40
         else if mount = ''/boot'' then 30
         else 20)
      else if FreeSpace part < 20 then
        (if mount = ''/'' then 20
         else if mount = ''/boot'' then 15
         else 10)
      else 0)"

definition summary_partition_stress :: "real \<Rightarrow> string \<times> SummaryPartition \<Rightarrow> real" where
  "summary_partition_stress stress entry =
     (case entry of (mount, part) \<Rightarrow> stress + summary_partition_tier mount part)"

text \<open>The factors of the summary's \<^verbatim>\<open>calculateSystemStress\<close>, one per \<^verbatim>\<open>if\<close> chain.\<close>

definition summary_cpu_tier :: "SystemSummary \<Rightarrow> real" where
  "summary_cpu_tier s =
     (let totalCPU = s_User (s_CPU s) + s_System (s_CPU s)
      in if totalCPU > 90 then 30
         else if totalCPU > 70 then 20
         else if totalCPU > 50 then 10
         else 0)"

definition summary_memory_tier :: "SystemSummary \<Rightarrow> real" where
  "summary_memory_tier s =
     (if fgt (UsedPc (s_Memory s)) 90 then 30
      else if fgt (UsedPc (s_Memory s)) 70 then 20
      else if fgt (UsedPc (s_Memory s)) 50 then 10
      else 0)"

definition summary_load_tier :: "SystemSummary \<Rightarrow> real" where
  "summary_load_tier s =
     (let load = Load1 (s_CPU s)
      in if load > 10 then 30
         else if load > 5 then 20
         else if load > 2 then 10
         else 0)"

definition summary_temperature_tier :: "SystemSummary \<Rightarrow> real" where
  "summary_temperature_tier s =
     (if MaxTemp (s_Temperature s) > 70 then 30
      else if MaxTemp (s_Temperature s) > 60 then 20
      else if MaxTemp (s_Temperature s) > 50 then 10
      else if MaxTemp (s_Temperature s) < - 20 then 20
      else if MaxTemp (s_Temperature s) < - 10 then 10
      else 0)"

definition summary_process_tier :: "SystemSummary \<Rightarrow> real" where
  "summary_process_tier s =
     (if Uninterr (s_Processes s) > 5 then 20 else 0) +
     (if HighCPU (s_Processes s) > 10 then 20 else 0)"

definition summary_accumulated_stress :: "SystemSummary \<Rightarrow> real" where
  "summary_accumulated_stress s =
     (let stress = 0;
          stress = stress + summary_cpu_tier s;
          stress = stress + summary_memory_tier s;
          stress = stress + summary_load_tier s;
          stress = stress + summary_temperature_tier s;
          stress = stress + summary_process_tier s
      in foldl summary_partition_stress stress (s_Partitions (s_Filesystem s)))"

definition summary_calculateSystemStress :: "SystemSummary \<Rightarrow> real" where
  "summary_calculateSystemStress s = min_go (summary_accumulated_stress s) 100"

text \<open>
  The memory block of \<^verbatim>\<open>Update\<close>: \<^verbatim>\<open>uint64(x)\<close> keeps the bits of the \<^verbatim>\<open>int64\<close>;
  \<^verbatim>\<open>float64(s.Memory.Used)\<close> reads them unsigned, \<^verbatim>\<open>float64(total)\<close> signed.
\<close>

definition Update_Memory :: "SystemStats \<Rightarrow> SummaryMemory" where
  "Update_Memory stats =
     (let total = mem_Total (Memory stats);
          used = mem_Used (Memory stats)
      in \<lparr>s_Total = total, s_Used = used, s_Free = mem_Free (Memory stats),
          UsedPc = fmul (fdiv (real_of_int (uint used)) (real_of_int (sint total))) 100\<rparr>)"

section \<open>The orchestrator (main.go)\<close>

text \<open>The condition under which a tick calls \<^verbatim>\<open>saveCrashDump\<close>.\<close>

definition crash_condition :: "Trend \<Rightarrow> bool" where
  "crash_condition trend \<longleftrightarrow>
     SystemStress trend \<ge> 85 \<or>
     Anomaly (CPUUsage trend) \<or>
     Anomaly (ProcessCount trend) \<or>
     Anomaly (t_Temperature trend) \<or>
     Anomaly (MemoryUsage trend) \<or>
     ThresholdExceeded (t_Temperature trend) \<or>
     f_Critical (t_Filesystem trend) \<or>
     f_Anomaly (t_Filesystem trend)"

text \<open>
  What a tick does with the result of \<^verbatim>\<open>Analyze\<close>: the calls it makes, in order.
  Log lines are left out.
\<close>

datatype action = SaveCrashDump | UpdateSummary

definition tick_actions :: "Trend option \<Rightarrow> action list" where
  "tick_actions result =
     UpdateSummary #
     (case result of
        None \<Rightarrow> []
      | Some trend \<Rightarrow> if crash_condition trend then [SaveCrashDump] else [])"

text \<open>
  One tick of the monitoring loop, from \<^verbatim>\<open>AddStats\<close> on. When \<^verbatim>\<open>AddStats\<close> panics
  the deferred handler of \<^verbatim>\<open>main\<close> takes over and the loop ends.
\<close>

definition tick ::
  "platform \<Rightarrow> TrendAnalyzer \<Rightarrow> SystemStats \<Rightarrow> panic + TrendAnalyzer \<times> action list" where
  "tick p analyzer stats =
     (case AddStats p analyzer stats of
        Inl e \<Rightarrow> Inl e
      | Inr analyzer' \<Rightarrow> Inr (analyzer', tick_actions (Analyze analyzer')))"

section \<open>The tiering of the spec and concrete inputs\<close>

text \<open>
  The per-partition tiering in the words of the spec: critical adds 30 for the root,
  25 for \<^verbatim>\<open>/boot\<close>, 15 otherwise; else free space below 20 percent adds 15, 10 or 5 by
  the same mount tiering.
\<close>

definition spec_partition_tier :: "string \<Rightarrow> bool \<Rightarrow> real \<Rightarrow> real" where
  "spec_partition_tier mount critical free =
     (if critical then
        (if mount = ''/'' then 30 else if mount = ''/boot'' then 25 else 15)
      else if free < 20 then
        (if mount = ''/'' then 15 else if mount = ''/boot'' then 10 else 5)
      else 0)"

text \<open>A root partition with a given percentage of free space, in both reports.\<close>

definition example_summary_partition :: "real \<Rightarrow> SummaryPartition" where
  "example_summary_partition free =
     \<lparr>sp_Device = ''/dev/root'', sp_Size = 1000, sp_Used = 0, sp_Available = 0,
      sp_UsedPct = 100 - free, FreeSpace = free, sp_MountPoint = ''/'',
      sp_Critical = (100 - free > 90)\<rparr>"

definition example_partition_trend :: "real \<Rightarrow> PartitionTrend" where
  "example_partition_trend free =
     \<lparr>Mean = free, StdDev = 0, Trend = 0, Anomaly = False, p_Min = free, p_Max = free,
      Current = free, Critical = (free < 10), Device = ''/dev/root'', MountPoint = ''/''\<rparr>"

text \<open>The zero value of a \<^verbatim>\<open>Trend\<close> and of a \<^verbatim>\<open>SystemSummary\<close>, and inputs in which every
  factor is in its highest tier.\<close>

definition zero_Metric :: Metric where
  "zero_Metric = \<lparr>Mean = 0, StdDev = 0, Trend = 0, Anomaly = False\<rparr>"

definition zero_Trend :: Trend where
  "zero_Trend =
     \<lparr>CPUUsage = zero_Metric, MemoryUsage = zero_Metric, ProcessCount = zero_Metric,
      t_Temperature = \<lparr>Mean = 0, StdDev = 0, Trend = 0, Anomaly = False, t_Max = 0, t_Min = 0,
                        AbsoluteThreshold = 0, ThresholdExceeded = False, t_Sensors = []\<rparr>,
      t_Filesystem = \<lparr>Partitions = [], f_Anomaly = False, f_Critical = False\<rparr>,
      SystemStress = 0\<rparr>"

definition adverse_Metric :: Metric where
  "adverse_Metric = \<lparr>Mean = 1000, StdDev = 0, Trend = 0, Anomaly = True\<rparr>"

definition adverse_Trend :: Trend where
  "adverse_Trend =
     \<lparr>CPUUsage = adverse_Metric, MemoryUsage = adverse_Metric, ProcessCount = adverse_Metric,
      t_Temperature = \<lparr>Mean = 0, StdDev = 0, Trend = 0, Anomaly = True, t_Max = 100, t_Min = 0,
                        AbsoluteThreshold = 70, ThresholdExceeded = True, t_Sensors = []\<rparr>,
      t_Filesystem =
        \<lparr>Partitions =
           [(''/'', \<lparr>Mean = 0, StdDev = 0, Trend = - 2, Anomaly = True, p_Min = 0, p_Max = 0,
                     Current = 0, Critical = True, Device = ''/dev/root'', MountPoint = ''/''\<rparr>)],
         f_Anomaly = True, f_Critical = True\<rparr>,
      SystemStress = 0\<rparr>"

definition zero_SystemSummary :: SystemSummary where
  "zero_SystemSummary =
     \<lparr>LastCrashFile = [],
      s_CPU = \<lparr>s_User = 0, s_System = 0, s_Idle = 0, Load1 = 0, Load5 = 0, Load15 = 0\<rparr>,
      s_Memory = \<lparr>s_Total = 0, s_Used = 0, s_Free = 0, UsedPc = Finite 0\<rparr>,
      s_Temperature = \<lparr>s_Sensors = [], MaxTemp = 0, AvgTemp = 0, temp_History = []\<rparr>,
      s_Filesystem = \<lparr>s_Partitions = [], fs_History = []\<rparr>,
      s_Processes = \<lparr>Total = 0, Running = 0, Sleeping = 0, Uninterr = 0, Zombie = 0,
                     HighCPU = 0, HighMem = 0, HighCPUProcs = []\<rparr>,
      s_SystemStress = 0\<rparr>"

definition adverse_SystemSummary :: SystemSummary where
  "adverse_SystemSummary =
     \<lparr>LastCrashFile = [],
      s_CPU = \<lparr>s_User = 60, s_System = 40, s_Idle = 0, Load1 = 50, Load5 = 50, Load15 = 50\<rparr>,
      s_Memory = \<lparr>s_Total = 100, s_Used = 99, s_Free = 1, UsedPc = Finite 99\<rparr>,
      s_Temperature = \<lparr>s_Sensors = [], MaxTemp = 90, AvgTemp = 90, temp_History = []\<rparr>,
      s_Filesystem =
        \<lparr>s_Partitions =
           [(''/'', \<lparr>sp_Device = ''/dev/root'', sp_Size = 100, sp_Used = 100, sp_Available = 0,
                     sp_UsedPct = 100, FreeSpace = 0, sp_MountPoint = ''/'', sp_Critical = True\<rparr>)],
         fs_History = []\<rparr>,
      s_Processes = \<lparr>Total = 500, Running = 0, Sleeping = 0, Uninterr = 100, Zombie = 0,
                     HighCPU = 100, HighMem = 0, HighCPUProcs = []\<rparr>,
      s_SystemStress = 0\<rparr>"

text \<open>
  Two platforms: 64-bit x86, where the Go runtime allocates at most \<open>2\<^sup>4\<^sup>8\<close> bytes, and
  32-bit ARM, where it allocates at most \<open>2\<^sup>3\<^sup>2 - 1\<close>.
\<close>

definition linux_amd64 :: platform where
  "linux_amd64 = \<lparr>int_bits = 64, max_alloc = 2 ^ 48\<rparr>"

definition linux_arm :: platform where
  "linux_arm = \<lparr>int_bits = 32, max_alloc = 2 ^ 32 - 1\<rparr>"

text \<open>Samples that differ in the CPU load, in the memory or in the temperature only.\<close>

definition cpu_sample :: "real \<Rightarrow> real \<Rightarrow> SystemStats" where
  "cpu_sample user sys =
     \<lparr>CPU = \<lparr>cpu_User = user, cpu_Sys = sys, cpu_Nice = 0, cpu_Idle = 100 - user - sys,
              cpu_IO = 0, cpu_IRQ = 0, cpu_SIRQ = 0\<rparr>,
      Memory = \<lparr>mem_Total = 0, mem_Used = 0, mem_Free = 0, mem_Shared = 0, mem_Buffers = 0,
                 mem_Cached = 0\<rparr>,
      LoadAverage = \<lparr>load_One = 0, load_Five = 0, load_Fifteen = 0\<rparr>,
      Processes = [],
      Temperature = \<lparr>Sensors = [(''cpu'', 45)]\<rparr>,
      Filesystem = None\<rparr>"

definition scenario_samples :: "SystemStats list" where
  "scenario_samples = replicate 9 (cpu_sample 7 3) @ [cpu_sample 80 15]"

definition mem_sample :: "int64 \<Rightarrow> int64 \<Rightarrow> SystemStats" where
  "mem_sample memTotal memUsed =
     \<lparr>CPU = \<lparr>cpu_User = 0, cpu_Sys = 0, cpu_Nice = 0, cpu_Idle = 100,
              cpu_IO = 0, cpu_IRQ = 0, cpu_SIRQ = 0\<rparr>,
      Memory = \<lparr>mem_Total = memTotal, mem_Used = memUsed, mem_Free = 0, mem_Shared = 0, mem_Buffers = 0,
                 mem_Cached = 0\<rparr>,
      LoadAverage = \<lparr>load_One = 0, load_Five = 0, load_Fifteen = 0\<rparr>,
      Processes = [],
      Temperature = \<lparr>Sensors = []\<rparr>,
      Filesystem = None\<rparr>"

definition temp_sample :: "real \<Rightarrow> SystemStats" where
  "temp_sample temp =
     \<lparr>CPU = \<lparr>cpu_User = 0, cpu_Sys = 0, cpu_Nice = 0, cpu_Idle = 100,
              cpu_IO = 0, cpu_IRQ = 0, cpu_SIRQ = 0\<rparr>,
      Memory = \<lparr>mem_Total = 0, mem_Used = 0, mem_Free = 0, mem_Shared = 0, mem_Buffers = 0,
                 mem_Cached = 0\<rparr>,
      LoadAverage = \<lparr>load_One = 0, load_Five = 0, load_Fifteen = 0\<rparr>,
      Processes = [],
      Temperature = \<lparr>Sensors = [(''cpu'', temp)]\<rparr>,
      Filesystem = None\<rparr>"

definition one_sample_analyzer :: TrendAnalyzer where
  "one_sample_analyzer =
     \<lparr>history = [mem_sample 0 0], window = 5, tempHistory = [], longTermTempHistory = [],
      anomalyThreshold = 2, trendThreshold = 0.1, tempThreshold = 70, longTermWindow = 50\<rparr>"

definition fresh_analyzer :: TrendAnalyzer where
  "fresh_analyzer =
     \<lparr>history = [], window = 1, tempHistory = [], longTermTempHistory = [],
      anomalyThreshold = 2, trendThreshold = 0.1, tempThreshold = 70, longTermWindow = 100\<rparr>"

text \<open>The analyzer \<open>New 1\<close> after the sample \<open>temp_sample 45\<close>: every series is full.\<close>

definition at_capacity_analyzer :: TrendAnalyzer where
  "at_capacity_analyzer =
     \<lparr>history = [temp_sample 45], window = 1, tempHistory = [(''cpu'', [45])],
      longTermTempHistory = [(''cpu'', [45])],
      anomalyThreshold = 2, trendThreshold = 0.1, tempThreshold = 70, longTermWindow = 100\<rparr>"

definition two_sample_analyzer :: TrendAnalyzer where
  "two_sample_analyzer =
     \<lparr>history = [cpu_sample 7 3, cpu_sample 80 15], window = 5, tempHistory = [],
      longTermTempHistory = [], anomalyThreshold = 2, trendThreshold = 0.1,
      tempThreshold = 70, longTermWindow = 50\<rparr>"

text \<open>A process of the command \<^verbatim>\<open>app\<close> with the given two percentages.\<close>

definition example_proc :: "real \<Rightarrow> real \<Rightarrow> Process" where
  "example_proc vszPercent cpuPercent =
     \<lparr>PID = 1, PPID = 0, proc_User = ''root'', Priority = 20, proc_Nice = 0, VSZ = 0,
      VSZPercent = vszPercent, RSS = 0, State = ''S'', proc_CPU = 0, CPUPercent = cpuPercent,
      MemPercent = 0, Time = ''0:00'', Command = ''app''\<rparr>"

text \<open>Two processes of one command that differ in the process id only.\<close>

definition tied_proc :: "int \<Rightarrow> Process" where
  "tied_proc pid =
     \<lparr>PID = pid, PPID = 0, proc_User = ''root'', Priority = 20, proc_Nice = 0, VSZ = 0,
      VSZPercent = 5, RSS = 0, State = ''S'', proc_CPU = 0, CPUPercent = 5,
      MemPercent = 0, Time = ''0:00'', Command = ''app''\<rparr>"

text \<open>
  The scan of the amended C7, for one command: entries of other commands are passed
  over, the first entry of the command is kept, and a later entry of the command
  replaces the kept one when its \<open>vszPercent\<close> or its \<open>cpuPercent\<close> is strictly larger.
\<close>

definition keep_step :: "string \<Rightarrow> Process option \<Rightarrow> Process \<Rightarrow> Process option" where
  "keep_step cmd kept proc =
     (if Command proc = cmd then
        (case kept of
           None \<Rightarrow> Some proc
         | Some existing \<Rightarrow>
             if VSZPercent proc > VSZPercent existing \<or> CPUPercent proc > CPUPercent existing
             then Some proc else Some existing)
      else kept)"

definition kept_entry :: "string \<Rightarrow> Process list \<Rightarrow> Process option" where
  "kept_entry cmd procs = foldl (keep_step cmd) None procs"

text \<open>
  The invariant of the deduplication loop: after the entries \<open>seen\<close>, the map has one
  entry per command seen, each an entry of \<open>seen\<close> stored under its own command.
\<close>

definition dedup_inv :: "Process list \<Rightarrow> (string \<times> Process) list \<Rightarrow> bool" where
  "dedup_inv seen processMap \<longleftrightarrow>
     distinct (map fst processMap) \<and>
     list_all (\<lambda>(command, proc). Command proc = command \<and> proc \<in> set seen) processMap \<and>
     fst ` set processMap = Command ` set seen"

section \<open>Statistics: lemmas\<close>

lemma sqrt_go_zero: "sqrt_go 0 = 1 / 1024"
  by (simp add: sqrt_go_def eval_nat_numeral)

lemma foldl_add_const: "foldl (\<lambda>sum v. sum + v) a (replicate n (v::real)) = a + real n * v"
  by (induction n arbitrary: a) (simp_all add: algebra_simps)

lemma foldl_sq_zero: "foldl (\<lambda>sumSq x. sumSq + (x - v) * (x - v)) a (replicate n (v::real)) = a"
  by (induction n arbitrary: a) simp_all

lemma calculateStats_nonempty:
  assumes "xs \<noteq> []" and "m = foldl (\<lambda>sum v. sum + v) 0 xs / real (length xs)"
  shows "calculateStats xs =
           (m, sqrt_go (foldl (\<lambda>sumSq x. sumSq + (x - m) * (x - m)) 0 xs / real (length xs)))"
  using assms by (simp add: calculateStats_def Let_def)

text \<open>
  On a constant series the mean is the value and the sum of squares is 0, and the ten
  Newton steps from 1 halve \<open>z\<close> ten times: the deviation returned is \<open>2\<^sup>-\<^sup>1\<^sup>0\<close>, not 0.
\<close>

lemma calculateStats_replicate: "calculateStats (replicate (Suc n) v) = (v, 1 / 1024)"
proof -
  have ne: "replicate (Suc n) v \<noteq> []" by simp
  have m: "v = foldl (\<lambda>sum v. sum + v) 0 (replicate (Suc n) v) / real (length (replicate (Suc n) v))"
    unfolding foldl_add_const by simp
  show ?thesis
    unfolding calculateStats_nonempty [OF ne m] foldl_sq_zero
    by (simp add: sqrt_go_zero)
qed

text \<open>With that deviation the guard \<open>stdDev = 0\<close> does not fire, and the z-score is 0.\<close>

lemma detectAnomaly_replicate:
  "detectAnomalyWithThreshold (replicate (Suc n) v) v (1 / 1024) thr \<longleftrightarrow> thr < 0"
  by (auto simp add: detectAnomalyWithThreshold_def Let_def)

lemma trend_sums_closed:
  "trend_sums i ys (a, b, c, d) =
     (a + (\<Sum>k<length ys. real (i + k)),
      b + (\<Sum>k<length ys. ys ! k),
      c + (\<Sum>k<length ys. real (i + k) * ys ! k),
      d + (\<Sum>k<length ys. real (i + k) * real (i + k)))"
proof (induction ys arbitrary: i a b c d)
  case Nil
  then show ?case by simp
next
  case (Cons y ys)
  show ?case
    by (simp add: Cons.IH sum.lessThan_Suc_shift Let_def algebra_simps del: sum.lessThan_Suc)
qed

lemma sum_idx: "(\<Sum>k<n. real k) = real n * (real n - 1) / 2"
  by (induction n) (simp_all add: field_simps)

lemma sum_idx_sq: "(\<Sum>k<n. real k * real k) = (real n - 1) * real n * (2 * real n - 1) / 6"
  by (induction n) (simp_all add: field_simps power2_eq_square)

lemma trend_denominator_closed:
  "trend_denominator values = (real (length values))\<^sup>2 * ((real (length values))\<^sup>2 - 1) / 12"
  unfolding trend_denominator_def Let_def trend_sums_closed
  by (simp add: sum_idx sum_idx_sq field_simps power2_eq_square)

lemma trend_denominator_pos: "2 \<le> length values \<Longrightarrow> trend_denominator values > 0"
proof -
  assume a: "2 \<le> length values"
  then have "real (length values) \<ge> 2" by simp
  then have "real (length values) * real (length values) \<ge> 2 * 2"
    by (intro mult_mono) simp_all
  then show ?thesis unfolding trend_denominator_closed by (simp add: power2_eq_square)
qed

lemma calculateTrend_two: "calculateTrend [a, b] = b - a"
  by (simp add: calculateTrend_def trend_numerator_def trend_denominator_def)

lemma min_go_eq_min: "min_go a b = min a b"
  by (simp add: min_go_def min_def)

section \<open>C1: the deviation of a constant series\<close>

text \<open>
  C1 claims that \<^verbatim>\<open>calculateStats\<close> returns a deviation of exactly 0 on a constant
  series, and that \<^verbatim>\<open>detectAnomalyWithThreshold\<close> is false there for every threshold.
  On \<open>[50, 50, 50, 50]\<close> the code returns the mean 50 and the deviation \<open>1 / 1024\<close>,
  and with the threshold \<open>-1\<close> it reports an anomaly.
\<close>

theorem calculateStats_constant_series:
  "calculateStats [50, 50, 50, 50] = (50, 1 / 1024) \<and>
   detectAnomalyWithThreshold [50, 50, 50, 50] 50 (1 / 1024) (- 1)"
proof -
  have e: "[50, 50, 50, 50] = replicate (Suc 3) (50::real)"
    by (simp add: numeral_3_eq_3)
  have "calculateStats [50, 50, 50, 50] = (50, 1 / 1024)"
    unfolding e by (rule calculateStats_replicate)
  moreover have "detectAnomalyWithThreshold [50, 50, 50, 50] 50 (1 / 1024) (- 1)"
    unfolding e detectAnomaly_replicate by simp
  ultimately show ?thesis by simp
qed

section \<open>C2: the stress score is clamped\<close>

lemma partition_tier_nonneg: "0 \<le> partition_tier mountPoint fs"
  by (simp add: partition_tier_def)

lemma partition_slope_tier_nonneg: "0 \<le> partition_slope_tier fs"
  by (simp add: partition_slope_tier_def)

lemma foldl_partition_risk_ge: "risk \<le> foldl partition_risk risk entries"
proof (induction entries arbitrary: risk)
  case Nil
  then show ?case by simp
next
  case (Cons entry entries)
  obtain mountPoint fs where e: "entry = (mountPoint, fs)" by (cases entry)
  have "risk \<le> partition_risk risk entry"
    using partition_tier_nonneg [of mountPoint fs] partition_slope_tier_nonneg [of fs]
    by (simp add: partition_risk_def e)
  also have "\<dots> \<le> foldl partition_risk (partition_risk risk entry) entries"
    by (rule Cons.IH)
  finally show ?case by simp
qed

lemma tiers_nonneg:
  "0 \<le> cpu_tier trend" "0 \<le> memory_tier trend" "0 \<le> process_tier trend"
  "0 \<le> process_anomaly_tier trend" "0 \<le> cpu_anomaly_tier trend"
  "0 \<le> temperature_tier trend" "0 \<le> temperature_anomaly_tier trend"
  "0 \<le> filesystem_tier trend"
  by (simp_all add: cpu_tier_def memory_tier_def process_tier_def process_anomaly_tier_def
        cpu_anomaly_tier_def temperature_tier_def temperature_anomaly_tier_def
        filesystem_tier_def)

lemma accumulated_risk_ge_cpu: "cpu_tier trend \<le> accumulated_risk trend"
proof -
  have "cpu_tier trend \<le> 0 + cpu_tier trend + memory_tier trend + process_tier trend +
          process_anomaly_tier trend + cpu_anomaly_tier trend + temperature_tier trend +
          temperature_anomaly_tier trend + filesystem_tier trend"
    using tiers_nonneg [of trend] by linarith
  also have "\<dots> \<le> accumulated_risk trend"
    unfolding accumulated_risk_def Let_def by (rule foldl_partition_risk_ge)
  finally show ?thesis .
qed

lemma accumulated_risk_nonneg: "0 \<le> accumulated_risk trend"
  using accumulated_risk_ge_cpu [of trend] tiers_nonneg(1) [of trend] by linarith

lemma summary_partition_tier_nonneg: "0 \<le> summary_partition_tier mount part"
  by (simp add: summary_partition_tier_def)

lemma foldl_summary_partition_stress_ge: "stress \<le> foldl summary_partition_stress stress entries"
proof (induction entries arbitrary: stress)
  case Nil
  then show ?case by simp
next
  case (Cons entry entries)
  obtain mount part where e: "entry = (mount, part)" by (cases entry)
  have "stress \<le> summary_partition_stress stress entry"
    using summary_partition_tier_nonneg [of mount part]
    by (simp add: summary_partition_stress_def e)
  also have "\<dots> \<le> foldl summary_partition_stress (summary_partition_stress stress entry) entries"
    by (rule Cons.IH)
  finally show ?case by simp
qed

lemma summary_tiers_nonneg:
  "0 \<le> summary_cpu_tier s" "0 \<le> summary_memory_tier s" "0 \<le> summary_load_tier s"
  "0 \<le> summary_temperature_tier s" "0 \<le> summary_process_tier s"
  by (simp_all add: summary_cpu_tier_def summary_memory_tier_def summary_load_tier_def
        summary_temperature_tier_def summary_process_tier_def Let_def)

lemma summary_accumulated_stress_nonneg: "0 \<le> summary_accumulated_stress s"
proof -
  have "0 \<le> 0 + summary_cpu_tier s + summary_memory_tier s + summary_load_tier s +
          summary_temperature_tier s + summary_process_tier s"
    using summary_tiers_nonneg [of s] by linarith
  also have "\<dots> \<le> summary_accumulated_stress s"
    unfolding summary_accumulated_stress_def Let_def by (rule foldl_summary_partition_stress_ge)
  finally show ?thesis .
qed

lemma zero_Trend_risk: "accumulated_risk zero_Trend = 0"
  by (simp add: accumulated_risk_def zero_Trend_def zero_Metric_def cpu_tier_def memory_tier_def
        process_tier_def process_anomaly_tier_def cpu_anomaly_tier_def temperature_tier_def
        temperature_anomaly_tier_def filesystem_tier_def)

lemma adverse_Trend_risk: "accumulated_risk adverse_Trend = 245"
  by (simp add: accumulated_risk_def adverse_Trend_def adverse_Metric_def cpu_tier_def memory_tier_def
        process_tier_def process_anomaly_tier_def cpu_anomaly_tier_def temperature_tier_def
        temperature_anomaly_tier_def filesystem_tier_def partition_risk_def partition_tier_def
        partition_slope_tier_def)

lemma zero_SystemSummary_stress: "summary_accumulated_stress zero_SystemSummary = 0"
  by (simp add: summary_accumulated_stress_def zero_SystemSummary_def summary_cpu_tier_def
        summary_memory_tier_def summary_load_tier_def summary_temperature_tier_def
        summary_process_tier_def)

lemma adverse_SystemSummary_stress: "summary_accumulated_stress adverse_SystemSummary = 200"
  by (simp add: summary_accumulated_stress_def adverse_SystemSummary_def summary_cpu_tier_def
        summary_memory_tier_def summary_load_tier_def summary_temperature_tier_def
        summary_process_tier_def summary_partition_stress_def summary_partition_tier_def)

lemma calculateSystemStress_bounds:
  "0 \<le> calculateSystemStress trend \<and> calculateSystemStress trend \<le> 100"
  using accumulated_risk_nonneg [of trend]
  by (simp add: calculateSystemStress_def min_go_eq_min)

lemma Analyze_stress_bounds:
  "case Analyze t of
     None \<Rightarrow> True
   | Some trend \<Rightarrow> 0 \<le> SystemStress trend \<and> SystemStress trend \<le> 100"
  using calculateSystemStress_bounds by (simp add: Analyze_def Let_def)

text \<open>
  C2: for every \<open>Trend\<close> and every \<open>SystemSummary\<close> the score is the minimum of the
  accumulated risk and 100 and lies between 0 and 100, also in the report that \<open>Analyze\<close>
  returns; it is 0 on the all-zero input and 100 on an input with every factor in its
  highest tier.
\<close>

theorem SystemStress_clamped:
  "calculateSystemStress trend = min (accumulated_risk trend) 100 \<and>
   0 \<le> calculateSystemStress trend \<and> calculateSystemStress trend \<le> 100 \<and>
   summary_calculateSystemStress s = min (summary_accumulated_stress s) 100 \<and>
   0 \<le> summary_calculateSystemStress s \<and> summary_calculateSystemStress s \<le> 100 \<and>
   (case Analyze t of
      None \<Rightarrow> True
    | Some result \<Rightarrow> 0 \<le> SystemStress result \<and> SystemStress result \<le> 100) \<and>
   calculateSystemStress zero_Trend = 0 \<and>
   summary_calculateSystemStress zero_SystemSummary = 0 \<and>
   calculateSystemStress adverse_Trend = 100 \<and>
   summary_calculateSystemStress adverse_SystemSummary = 100"
  using accumulated_risk_nonneg [of trend] summary_accumulated_stress_nonneg [of s]
    Analyze_stress_bounds [of t]
  by (simp add: calculateSystemStress_def summary_calculateSystemStress_def min_go_eq_min
        zero_Trend_risk adverse_Trend_risk zero_SystemSummary_stress adverse_SystemSummary_stress)

section \<open>C3: too few samples, and the regression denominator\<close>

text \<open>
  C3: with fewer than two samples \<open>Analyze\<close> returns no result. With exactly two it
  returns a report whose CPU, memory and process slopes divide by 1. Every other slope
  of \<open>Analyze\<close> is a call of \<open>calculateTrend\<close>, which returns 0 without dividing on
  fewer than two values and divides by a positive denominator on two or more.
\<close>

theorem Analyze_few_samples:
  "(length (history t) < 2 \<longrightarrow> Analyze t = None) \<and>
   (length (history t) = 2 \<longrightarrow>
      (\<exists>trend. Analyze t = Some trend \<and>
         trend_denominator (map cpuUsage (history t)) = 1 \<and>
         trend_denominator (map memUsage (history t)) = 1 \<and>
         trend_denominator (map procCount (history t)) = 1 \<and>
         Trend (CPUUsage trend) = cpuUsage (history t ! 1) - cpuUsage (history t ! 0) \<and>
         Trend (MemoryUsage trend) = memUsage (history t ! 1) - memUsage (history t ! 0) \<and>
         Trend (ProcessCount trend) = procCount (history t ! 1) - procCount (history t ! 0))) \<and>
   (\<forall>values.
      (length values < 2 \<longrightarrow> calculateTrend values = 0) \<and>
      (2 \<le> length values \<longrightarrow>
         0 < trend_denominator values \<and>
         calculateTrend values = trend_numerator values / trend_denominator values))"
proof -
  have two: "length (history t) = 2 \<Longrightarrow> \<exists>a b. history t = [a, b]"
    by (cases "history t"; cases "tl (history t)") auto
  have "length (history t) = 2 \<Longrightarrow>
      (\<exists>trend. Analyze t = Some trend \<and>
         trend_denominator (map cpuUsage (history t)) = 1 \<and>
         trend_denominator (map memUsage (history t)) = 1 \<and>
         trend_denominator (map procCount (history t)) = 1 \<and>
         Trend (CPUUsage trend) = cpuUsage (history t ! 1) - cpuUsage (history t ! 0) \<and>
         Trend (MemoryUsage trend) = memUsage (history t ! 1) - memUsage (history t ! 0) \<and>
         Trend (ProcessCount trend) = procCount (history t ! 1) - procCount (history t ! 0))"
  proof -
    assume "length (history t) = 2"
    then obtain a b where ab: "history t = [a, b]" using two by blast
    show ?thesis
      by (simp add: Analyze_def Let_def ab metric_of_def split_beta calculateTrend_two
            trend_denominator_closed)
  qed
  then show ?thesis
    using trend_denominator_pos by (simp add: Analyze_def calculateTrend_def)
qed

theorem Analyze_few_samples_witness:
  "Analyze fresh_analyzer = None \<and>
   (\<exists>trend. Analyze two_sample_analyzer = Some trend \<and> Trend (CPUUsage trend) = 85) \<and>
   0 < trend_denominator [10, 95] \<and> calculateTrend [10, 95] = 85 \<and> calculateTrend [10] = 0"
proof -
  have a: "Analyze fresh_analyzer = None"
    using Analyze_few_samples [of fresh_analyzer] by (simp add: fresh_analyzer_def)
  have "length (history two_sample_analyzer) = 2" by (simp add: two_sample_analyzer_def)
  then obtain trend where "Analyze two_sample_analyzer = Some trend"
    and "Trend (CPUUsage trend) =
           cpuUsage (history two_sample_analyzer ! 1) - cpuUsage (history two_sample_analyzer ! 0)"
    using Analyze_few_samples [of two_sample_analyzer] by blast
  then have b: "\<exists>trend. Analyze two_sample_analyzer = Some trend \<and> Trend (CPUUsage trend) = 85"
    by (simp add: two_sample_analyzer_def cpu_sample_def cpuUsage_def)
  have c: "0 < trend_denominator [10, 95] \<and>
           calculateTrend [10, 95] = trend_numerator [10, 95] / trend_denominator [10, 95]"
    using Analyze_few_samples [of fresh_analyzer] by simp
  have d: "calculateTrend [10] = 0"
    using Analyze_few_samples [of fresh_analyzer] by simp
  show ?thesis using a b c d by (simp add: calculateTrend_two)
qed

section \<open>C4: the per-partition tiers of the two formulas\<close>

text \<open>
  C4 claims that the summary's per-partition tiering is the engine's. For a root
  partition with 5 percent free the summary adds 40 and the engine adds 30, the value
  of the spec.
\<close>

theorem partition_tiers_counterexample:
  "summary_partition_tier ''/'' (example_summary_partition 5) = 40 \<and>
   partition_tier ''/'' (example_partition_trend 5) = 30 \<and>
   spec_partition_tier ''/'' True 5 = 30"
  by (simp add: summary_partition_tier_def partition_tier_def spec_partition_tier_def
        example_summary_partition_def example_partition_trend_def)

text \<open>
  C4 as amended: the engine's tiering is the one the spec words, and the summary selects
  its tier the same way (critical below 10 percent free, low below 20, by mount point)
  but with the weights 40, 30, 20 and 20, 15, 10: it adds 10 more than the engine for
  a critical root partition and 5 more in every other tier.
\<close>

theorem partition_tiers_compared:
  assumes "Current fs = FreeSpace part" and "Critical fs \<longleftrightarrow> Current fs < 10"
  shows "partition_tier mount fs = spec_partition_tier mount (Critical fs) (Current fs) \<and>
         (summary_partition_tier mount part = 0 \<longleftrightarrow> partition_tier mount fs = 0) \<and>
         summary_partition_tier mount part =
           partition_tier mount fs +
             (if FreeSpace part < 10 \<and> mount = ''/'' then 10
              else if FreeSpace part < 20 then 5 else 0)"
  using assms
  by (auto simp add: partition_tier_def summary_partition_tier_def spec_partition_tier_def)

theorem partition_tiers_compared_witness:
  "Current (example_partition_trend 15) = FreeSpace (example_summary_partition 15) \<and>
   (Critical (example_partition_trend 15) \<longleftrightarrow> Current (example_partition_trend 15) < 10) \<and>
   partition_tier ''/boot'' (example_partition_trend 15) = 10 \<and>
   summary_partition_tier ''/boot'' (example_summary_partition 15) = 15"
proof -
  have a: "Current (example_partition_trend 15) = FreeSpace (example_summary_partition 15)"
    by (simp add: example_partition_trend_def example_summary_partition_def)
  have b: "Critical (example_partition_trend 15) \<longleftrightarrow> Current (example_partition_trend 15) < 10"
    by (simp add: example_partition_trend_def)
  show ?thesis
    using a b partition_tiers_compared [OF a b, of "''/boot''"]
    by (simp add: spec_partition_tier_def example_partition_trend_def example_summary_partition_def)
qed

section \<open>C5: every series stays within its capacity\<close>

lemma append_evict_length_le:
  "int (length xs) \<le> bound \<Longrightarrow> int (length (append_evict bound xs x)) \<le> bound"
  by (simp add: append_evict_def Let_def)

lemma append_evict_length_ge: "length xs \<le> length (append_evict bound xs x)"
  by (simp add: append_evict_def Let_def)

lemma append_evict_fifo:
  "append_evict bound xs x = (if int (length xs) < bound then xs @ [x] else tl (xs @ [x]))"
  by (auto simp add: append_evict_def Let_def)

lemma set_update_subset: "set (AList.update k v al) \<subseteq> insert (k, v) (set al)"
  by (induction al) auto

lemma list_all_update:
  "P (k, v) \<Longrightarrow> list_all P al \<Longrightarrow> list_all P (AList.update k v al)"
  using set_update_subset [of k v al] by (auto simp add: list_all_iff)

lemma series_length_update:
  "series_length (AList.update k v al) name = (if name = k then length v else series_length al name)"
  by (simp add: series_length_def update_conv')

lemma make_slice_Inr: "make_slice p elem_size cap = Inr xs \<Longrightarrow> xs = [] \<and> 0 \<le> cap"
  by (simp add: make_slice_def split: if_splits)

lemma addSensor_unfold:
  "addSensor p t (name, temp) =
     (case (case map_of (tempHistory t) name of Some h \<Rightarrow> Inr h
            | None \<Rightarrow> make_slice p float64_size (window t)) of
        Inl e \<Rightarrow> Inl e
      | Inr short \<Rightarrow>
          (case (case map_of (longTermTempHistory t) name of Some h \<Rightarrow> Inr h
                 | None \<Rightarrow> make_slice p float64_size (longTermWindow t)) of
             Inl e \<Rightarrow> Inl e
           | Inr long \<Rightarrow>
               Inr (t\<lparr>tempHistory :=
                         AList.update name (append_evict (window t) short temp) (tempHistory t),
                       longTermTempHistory :=
                         AList.update name (append_evict (longTermWindow t) long temp)
                           (longTermTempHistory t)\<rparr>)))"
  by (simp add: addSensor_def Let_def split: option.splits sum.splits)

lemma addSensor_fields:
  "addSensor p t entry = Inr t' \<Longrightarrow>
     history t' = history t \<and> window t' = window t \<and> longTermWindow t' = longTermWindow t \<and>
     anomalyThreshold t' = anomalyThreshold t \<and> trendThreshold t' = trendThreshold t \<and>
     tempThreshold t' = tempThreshold t"
  by (cases entry) (auto simp add: addSensor_unfold split: option.splits sum.splits)

lemma addSensor_bounds:
  assumes "addSensor p t entry = Inr t'"
    and "list_all (\<lambda>(name, series). int (length series) \<le> window t) (tempHistory t)"
    and "list_all (\<lambda>(name, series). int (length series) \<le> longTermWindow t) (longTermTempHistory t)"
  shows "list_all (\<lambda>(name, series). int (length series) \<le> window t') (tempHistory t') \<and>
         list_all (\<lambda>(name, series). int (length series) \<le> longTermWindow t') (longTermTempHistory t')"
proof -
  obtain name temp where e: "entry = (name, temp)" by (cases entry)
  obtain short where short: "(case map_of (tempHistory t) name of Some h \<Rightarrow> Inr h
                               | None \<Rightarrow> make_slice p float64_size (window t)) = Inr short"
    using assms(1) by (auto simp add: addSensor_unfold e split: sum.splits)
  obtain long where long: "(case map_of (longTermTempHistory t) name of Some h \<Rightarrow> Inr h
                               | None \<Rightarrow> make_slice p float64_size (longTermWindow t)) = Inr long"
    using assms(1) by (auto simp add: addSensor_unfold e split: sum.splits)
  have t': "t' = t\<lparr>tempHistory := AList.update name (append_evict (window t) short temp) (tempHistory t),
                   longTermTempHistory := AList.update name (append_evict (longTermWindow t) long temp)
                                 (longTermTempHistory t)\<rparr>"
    using assms(1) short long by (simp add: addSensor_unfold e)
  have s: "int (length short) \<le> window t"
  proof (cases "map_of (tempHistory t) name")
    case None
    then show ?thesis using short make_slice_Inr [of p float64_size "window t" short] by simp
  next
    case (Some h)
    then have "(name, h) \<in> set (tempHistory t)" by (rule map_of_SomeD)
    then show ?thesis using assms(2) short Some by (auto simp add: list_all_iff)
  qed
  have l: "int (length long) \<le> longTermWindow t"
  proof (cases "map_of (longTermTempHistory t) name")
    case None
    then show ?thesis using long make_slice_Inr [of p float64_size "longTermWindow t" long] by simp
  next
    case (Some h)
    then have "(name, h) \<in> set (longTermTempHistory t)" by (rule map_of_SomeD)
    then show ?thesis using assms(3) long Some by (auto simp add: list_all_iff)
  qed
  show ?thesis
    unfolding t' using assms(2,3) append_evict_length_le [OF s, of temp]
      append_evict_length_le [OF l, of temp]
    by (simp add: list_all_update)
qed

lemma addSensor_series_mono:
  assumes "addSensor p t entry = Inr t'"
  shows "series_length (tempHistory t) name \<le> series_length (tempHistory t') name \<and>
         series_length (longTermTempHistory t) name \<le> series_length (longTermTempHistory t') name"
proof -
  obtain k temp where e: "entry = (k, temp)" by (cases entry)
  obtain short where short: "(case map_of (tempHistory t) k of Some h \<Rightarrow> Inr h
                               | None \<Rightarrow> make_slice p float64_size (window t)) = Inr short"
    using assms(1) by (auto simp add: addSensor_unfold e split: sum.splits)
  obtain long where long: "(case map_of (longTermTempHistory t) k of Some h \<Rightarrow> Inr h
                               | None \<Rightarrow> make_slice p float64_size (longTermWindow t)) = Inr long"
    using assms(1) by (auto simp add: addSensor_unfold e split: sum.splits)
  have t': "t' = t\<lparr>tempHistory := AList.update k (append_evict (window t) short temp) (tempHistory t),
                   longTermTempHistory := AList.update k (append_evict (longTermWindow t) long temp)
                                 (longTermTempHistory t)\<rparr>"
    using assms(1) short long by (simp add: addSensor_unfold e)
  have s: "series_length (tempHistory t) k = length short"
    using short make_slice_Inr [of p float64_size "window t" short]
    by (auto simp add: series_length_def split: option.splits)
  have l: "series_length (longTermTempHistory t) k = length long"
    using long make_slice_Inr [of p float64_size "longTermWindow t" long]
    by (auto simp add: series_length_def split: option.splits)
  show ?thesis
    unfolding t' using s l append_evict_length_ge [of short "window t" temp]
      append_evict_length_ge [of long "longTermWindow t" temp]
    by (simp add: series_length_update)
qed

lemma addSensors_fields:
  "addSensors p t entries = Inr t' \<Longrightarrow>
     history t' = history t \<and> window t' = window t \<and> longTermWindow t' = longTermWindow t \<and>
     anomalyThreshold t' = anomalyThreshold t \<and> trendThreshold t' = trendThreshold t \<and>
     tempThreshold t' = tempThreshold t"
proof (induction entries arbitrary: t)
  case Nil
  then show ?case by simp
next
  case (Cons entry entries)
  then obtain t1 where a: "addSensor p t entry = Inr t1" and b: "addSensors p t1 entries = Inr t'"
    by (auto split: sum.splits)
  show ?case using addSensor_fields [OF a] Cons.IH [OF b] by simp
qed

lemma addSensors_bounds:
  "addSensors p t entries = Inr t' \<Longrightarrow>
   list_all (\<lambda>(name, series). int (length series) \<le> window t) (tempHistory t) \<Longrightarrow>
   list_all (\<lambda>(name, series). int (length series) \<le> longTermWindow t) (longTermTempHistory t) \<Longrightarrow>
   list_all (\<lambda>(name, series). int (length series) \<le> window t') (tempHistory t') \<and>
   list_all (\<lambda>(name, series). int (length series) \<le> longTermWindow t') (longTermTempHistory t')"
proof (induction entries arbitrary: t)
  case Nil
  then show ?case by simp
next
  case (Cons entry entries)
  then obtain t1 where a: "addSensor p t entry = Inr t1" and b: "addSensors p t1 entries = Inr t'"
    by (auto split: sum.splits)
  have c: "list_all (\<lambda>(name, series). int (length series) \<le> window t1) (tempHistory t1) \<and>
         list_all (\<lambda>(name, series). int (length series) \<le> longTermWindow t1) (longTermTempHistory t1)"
    using addSensor_bounds [OF a Cons.prems(2) Cons.prems(3)] .
  show ?case using Cons.IH [OF b] c by simp
qed

lemma addSensors_series_mono:
  "addSensors p t entries = Inr t' \<Longrightarrow>
     series_length (tempHistory t) name \<le> series_length (tempHistory t') name \<and>
     series_length (longTermTempHistory t) name \<le> series_length (longTermTempHistory t') name"
proof (induction entries arbitrary: t)
  case Nil
  then show ?case by simp
next
  case (Cons entry entries)
  then obtain t1 where a: "addSensor p t entry = Inr t1" and b: "addSensors p t1 entries = Inr t'"
    by (auto split: sum.splits)
  show ?case using addSensor_series_mono [OF a, of name] Cons.IH [OF b] by linarith
qed

lemma addSensor_series:
  assumes "addSensor p t (k, temp) = Inr t'"
  shows "map_of (tempHistory t') name =
           (if name = k then Some (fifo_push (window t) (series_of (tempHistory t) k) temp)
            else map_of (tempHistory t) name) \<and>
         map_of (longTermTempHistory t') name =
           (if name = k
            then Some (fifo_push (longTermWindow t) (series_of (longTermTempHistory t) k) temp)
            else map_of (longTermTempHistory t) name)"
proof -
  obtain short where short: "(case map_of (tempHistory t) k of Some h \<Rightarrow> Inr h
                               | None \<Rightarrow> make_slice p float64_size (window t)) = Inr short"
    using assms(1) by (auto simp add: addSensor_unfold split: sum.splits)
  obtain long where long: "(case map_of (longTermTempHistory t) k of Some h \<Rightarrow> Inr h
                               | None \<Rightarrow> make_slice p float64_size (longTermWindow t)) = Inr long"
    using assms(1) by (auto simp add: addSensor_unfold split: sum.splits)
  have t': "t' = t\<lparr>tempHistory := AList.update k (append_evict (window t) short temp) (tempHistory t),
                   longTermTempHistory := AList.update k (append_evict (longTermWindow t) long temp)
                                 (longTermTempHistory t)\<rparr>"
    using assms(1) short long by (simp add: addSensor_unfold)
  have s: "short = series_of (tempHistory t) k"
    using short make_slice_Inr [of p float64_size "window t" short]
    by (auto simp add: series_of_def split: option.splits)
  have l: "long = series_of (longTermTempHistory t) k"
    using long make_slice_Inr [of p float64_size "longTermWindow t" long]
    by (auto simp add: series_of_def split: option.splits)
  show ?thesis
    unfolding t' s l by (simp add: update_conv' append_evict_fifo fifo_push_def)
qed

lemma addSensors_series:
  "addSensors p t entries = Inr t' \<Longrightarrow> distinct (map fst entries) \<Longrightarrow>
     (case map_of entries name of
        None \<Rightarrow>
          map_of (tempHistory t') name = map_of (tempHistory t) name \<and>
          map_of (longTermTempHistory t') name = map_of (longTermTempHistory t) name
      | Some temp \<Rightarrow>
          map_of (tempHistory t') name =
            Some (fifo_push (window t) (series_of (tempHistory t) name) temp) \<and>
          map_of (longTermTempHistory t') name =
            Some (fifo_push (longTermWindow t) (series_of (longTermTempHistory t) name) temp))"
proof (induction entries arbitrary: t)
  case Nil
  then show ?case by simp
next
  case (Cons entry entries)
  obtain k temp where e: "entry = (k, temp)" by (cases entry)
  obtain t1 where a: "addSensor p t (k, temp) = Inr t1" and b: "addSensors p t1 entries = Inr t'"
    using Cons.prems(1) by (auto simp add: e split: sum.splits)
  have d: "distinct (map fst entries)" and nk: "map_of entries k = None"
    using Cons.prems(2) by (auto simp add: e map_of_eq_None_iff)
  note ih = Cons.IH [OF b d]
  note f = addSensor_fields [OF a]
  note s1 = addSensor_series [OF a, of name]
  show ?case
  proof (cases "name = k")
    case True
    then show ?thesis using ih s1 nk by (simp add: e)
  next
    case False
    then have "series_of (tempHistory t1) name = series_of (tempHistory t) name"
      and "series_of (longTermTempHistory t1) name = series_of (longTermTempHistory t) name"
      using s1 by (simp_all add: series_of_def)
    then show ?thesis using ih s1 f False by (simp add: e split: option.splits)
  qed
qed

lemma addSensor_panic:
  "addSensor p t entry = Inl e \<Longrightarrow>
     make_slice p float64_size (window t) = (Inl e :: panic + real list) \<or>
     make_slice p float64_size (longTermWindow t) = (Inl e :: panic + real list)"
  by (cases entry)
    (auto simp add: addSensor_unfold split: option.splits sum.splits)

lemma addSensors_panic:
  "addSensors p t entries = Inl e \<Longrightarrow>
     make_slice p float64_size (window t) = (Inl e :: panic + real list) \<or>
     make_slice p float64_size (longTermWindow t) = (Inl e :: panic + real list)"
proof (induction entries arbitrary: t)
  case Nil
  then show ?case by simp
next
  case (Cons entry entries)
  show ?case
  proof (cases "addSensor p t entry")
    case (Inl e')
    then have "e' = e" using Cons.prems by simp
    then show ?thesis using Inl by (auto dest: addSensor_panic)
  next
    case (Inr t1)
    then have "addSensors p t1 entries = Inl e" using Cons.prems by simp
    then have "make_slice p float64_size (window t1) = (Inl e :: panic + real list) \<or>
               make_slice p float64_size (longTermWindow t1) = (Inl e :: panic + real list)"
      by (rule Cons.IH)
    then show ?thesis using addSensor_fields [OF Inr] by simp
  qed
qed

lemma AddStats_fields:
  assumes "AddStats p t stats = Inr t'"
  shows "history t' = append_evict (window t) (history t) stats \<and> window t' = window t \<and>
         longTermWindow t' = longTermWindow t \<and> anomalyThreshold t' = anomalyThreshold t \<and>
         trendThreshold t' = trendThreshold t \<and> tempThreshold t' = tempThreshold t"
  using addSensors_fields [OF assms [unfolded AddStats_def]] by simp

lemma AddStats_within_bounds:
  assumes "AddStats p t stats = Inr t'" and "within_bounds t"
  shows "within_bounds t'"
proof -
  have h: "int (length (history t')) \<le> window t'"
    using AddStats_fields [OF assms(1)] assms(2) append_evict_length_le [of "history t" "window t" stats]
    by (simp add: within_bounds_def)
  have "list_all (\<lambda>(name, series). int (length series) \<le> window t') (tempHistory t') \<and>
        list_all (\<lambda>(name, series). int (length series) \<le> longTermWindow t') (longTermTempHistory t')"
    using addSensors_bounds [OF assms(1) [unfolded AddStats_def]] assms(2)
    by (simp add: within_bounds_def)
  then show ?thesis using h by (simp add: within_bounds_def)
qed

lemma constructed_within_bounds:
  "NewWithFullOptions p w a tr tt ltw = Inr t \<Longrightarrow> within_bounds t"
  "NewWithOptions p w a tr = Inr t \<Longrightarrow> within_bounds t"
  "New p w = Inr t \<Longrightarrow> within_bounds t"
  by (auto simp add: NewWithFullOptions_def NewWithOptions_def New_def make_slice_def
        within_bounds_def split: if_splits)

lemma reachable_within_bounds: "reachable p t \<Longrightarrow> within_bounds t"
  by (induction rule: reachable.induct)
    (auto intro: constructed_within_bounds AddStats_within_bounds)

lemma AddStats_panic:
  "AddStats p t stats = Inl e \<Longrightarrow>
     make_slice p float64_size (window t) = (Inl e :: panic + real list) \<or>
     make_slice p float64_size (longTermWindow t) = (Inl e :: panic + real list)"
  using addSensors_panic [of p "t\<lparr>history := append_evict (window t) (history t) stats\<rparr>"]
  by (simp add: AddStats_def)

lemma AddStats_series:
  assumes "AddStats p t stats = Inr t'" and "distinct (map fst (Sensors (Temperature stats)))"
  shows "case map_of (Sensors (Temperature stats)) name of
        None \<Rightarrow>
          map_of (tempHistory t') name = map_of (tempHistory t) name \<and>
          map_of (longTermTempHistory t') name = map_of (longTermTempHistory t) name
      | Some temp \<Rightarrow>
          map_of (tempHistory t') name =
            Some (fifo_push (window t) (series_of (tempHistory t) name) temp) \<and>
          map_of (longTermTempHistory t') name =
            Some (fifo_push (longTermWindow t) (series_of (longTermTempHistory t) name) temp)"
  using addSensors_series [OF assms(1) [unfolded AddStats_def] assms(2), of name]
  by (simp split: option.splits)

text \<open>
  C5: on an analyzer built by a constructor and fed samples, a call of \<open>AddStats\<close>
  that returns leaves the history within \<open>window\<close>, every short series within
  \<open>window\<close> and every long series within \<open>longTermWindow\<close>. The history, and both
  series of every sensor of the sample, are the old ones with the new value appended
  and, when the old one was at its capacity, without the oldest element; the series of
  every other sensor are unchanged; no length decreases. (The sensors of a sample are
  a Go map, so their names are distinct.) The call panics only where one of its two
  \<^verbatim>\<open>make\<close> calls does.
\<close>

theorem AddStats_keeps_bounds:
  assumes "reachable p t" and "distinct (map fst (Sensors (Temperature stats)))"
  shows "case AddStats p t stats of
           Inl e \<Rightarrow>
             make_slice p float64_size (window t) = (Inl e :: panic + real list) \<or>
             make_slice p float64_size (longTermWindow t) = (Inl e :: panic + real list)
         | Inr t' \<Rightarrow>
             within_bounds t' \<and> window t' = window t \<and> longTermWindow t' = longTermWindow t \<and>
             history t' = fifo_push (window t) (history t) stats \<and>
             length (history t) \<le> length (history t') \<and>
             (\<forall>name. series_length (tempHistory t) name \<le> series_length (tempHistory t') name \<and>
                     series_length (longTermTempHistory t) name
                       \<le> series_length (longTermTempHistory t') name) \<and>
             (\<forall>name.
                case map_of (Sensors (Temperature stats)) name of
                  None \<Rightarrow>
                    map_of (tempHistory t') name = map_of (tempHistory t) name \<and>
                    map_of (longTermTempHistory t') name = map_of (longTermTempHistory t) name
                | Some temp \<Rightarrow>
                    map_of (tempHistory t') name =
                      Some (fifo_push (window t) (series_of (tempHistory t) name) temp) \<and>
                    map_of (longTermTempHistory t') name =
                      Some (fifo_push (longTermWindow t)
                              (series_of (longTermTempHistory t) name) temp))"
proof (cases "AddStats p t stats")
  case (Inl e)
  then show ?thesis using AddStats_panic [OF Inl] by simp
next
  case (Inr t')
  have wb: "within_bounds t" using assms(1) by (rule reachable_within_bounds)
  have "within_bounds t'" using Inr wb by (rule AddStats_within_bounds)
  moreover have "history t' = fifo_push (window t) (history t) stats"
    using AddStats_fields [OF Inr] by (simp add: append_evict_fifo fifo_push_def)
  moreover have "window t' = window t \<and> longTermWindow t' = longTermWindow t"
    using AddStats_fields [OF Inr] by simp
  moreover have "length (history t) \<le> length (history t')"
    using AddStats_fields [OF Inr] append_evict_length_ge [of "history t" "window t" stats]
    by simp
  moreover have "\<forall>name. series_length (tempHistory t) name \<le> series_length (tempHistory t') name \<and>
                     series_length (longTermTempHistory t) name
                       \<le> series_length (longTermTempHistory t') name"
    using addSensors_series_mono [OF Inr [unfolded AddStats_def]] by simp
  moreover note AddStats_series [OF Inr assms(2)]
  ultimately show ?thesis using Inr by simp
qed

theorem AddStats_keeps_bounds_witness:
  "reachable linux_amd64 at_capacity_analyzer \<and>
   distinct (map fst (Sensors (Temperature (temp_sample 50)))) \<and>
   (\<exists>t'. AddStats linux_amd64 at_capacity_analyzer (temp_sample 50) = Inr t' \<and>
         within_bounds t' \<and> history t' = [temp_sample 50] \<and>
         map_of (tempHistory t') ''cpu'' = Some [50] \<and>
         map_of (longTermTempHistory t') ''cpu'' = Some [45, 50] \<and>
         map_of (tempHistory t') ''board'' = None)"
proof -
  have "New linux_amd64 1 = Inr fresh_analyzer"
    by (simp add: New_def make_slice_def fresh_analyzer_def linux_amd64_def ptr_size_def)
  then have r0: "reachable linux_amd64 fresh_analyzer" by (rule reachable.constructed_new)
  have "AddStats linux_amd64 fresh_analyzer (temp_sample 45) = Inr at_capacity_analyzer"
    by (simp add: AddStats_def addSensor_unfold make_slice_def append_evict_def
          fresh_analyzer_def at_capacity_analyzer_def temp_sample_def linux_amd64_def
          float64_size_def)
  with r0 have r: "reachable linux_amd64 at_capacity_analyzer" by (rule reachable.added)
  have d: "distinct (map fst (Sensors (Temperature (temp_sample 50))))"
    by (simp add: temp_sample_def)
  have m: "map_of (Sensors (Temperature (temp_sample 50))) ''cpu'' = Some 50"
    "map_of (Sensors (Temperature (temp_sample 50))) ''board'' = None"
    by (simp_all add: temp_sample_def)
  note th = AddStats_keeps_bounds [OF r d]
  show ?thesis
  proof (cases "AddStats linux_amd64 at_capacity_analyzer (temp_sample 50)")
    case (Inl e)
    then show ?thesis
      using th by (simp add: make_slice_def at_capacity_analyzer_def linux_amd64_def float64_size_def)
  next
    case (Inr t')
    have "within_bounds t'" and "history t' = [temp_sample 50]"
      using th Inr by (simp_all add: fifo_push_def at_capacity_analyzer_def)
    moreover have "map_of (tempHistory t') ''cpu'' = Some [50]"
      and "map_of (longTermTempHistory t') ''cpu'' = Some [45, 50]"
      and "map_of (tempHistory t') ''board'' = None"
    proof -
      have c: "case map_of (Sensors (Temperature (temp_sample 50))) ''cpu'' of
                  None \<Rightarrow>
                    map_of (tempHistory t') ''cpu'' = map_of (tempHistory at_capacity_analyzer) ''cpu'' \<and>
                    map_of (longTermTempHistory t') ''cpu'' =
                      map_of (longTermTempHistory at_capacity_analyzer) ''cpu''
                | Some temp \<Rightarrow>
                    map_of (tempHistory t') ''cpu'' =
                      Some (fifo_push (window at_capacity_analyzer)
                              (series_of (tempHistory at_capacity_analyzer) ''cpu'') temp) \<and>
                    map_of (longTermTempHistory t') ''cpu'' =
                      Some (fifo_push (longTermWindow at_capacity_analyzer)
                              (series_of (longTermTempHistory at_capacity_analyzer) ''cpu'') temp)"
        using th Inr by simp
      have b: "case map_of (Sensors (Temperature (temp_sample 50))) ''board'' of
                  None \<Rightarrow>
                    map_of (tempHistory t') ''board'' = map_of (tempHistory at_capacity_analyzer) ''board'' \<and>
                    map_of (longTermTempHistory t') ''board'' =
                      map_of (longTermTempHistory at_capacity_analyzer) ''board''
                | Some temp \<Rightarrow>
                    map_of (tempHistory t') ''board'' =
                      Some (fifo_push (window at_capacity_analyzer)
                              (series_of (tempHistory at_capacity_analyzer) ''board'') temp) \<and>
                    map_of (longTermTempHistory t') ''board'' =
                      Some (fifo_push (longTermWindow at_capacity_analyzer)
                              (series_of (longTermTempHistory at_capacity_analyzer) ''board'') temp)"
        using th Inr by simp
      show "map_of (tempHistory t') ''cpu'' = Some [50]"
        and "map_of (longTermTempHistory t') ''cpu'' = Some [45, 50]"
        using c by (simp_all add: m fifo_push_def series_of_def at_capacity_analyzer_def)
      show "map_of (tempHistory t') ''board'' = None"
        using b by (simp add: m at_capacity_analyzer_def)
    qed
    ultimately show ?thesis using r d Inr by simp
  qed
qed

section \<open>C6: the CPU spike scenario\<close>

lemma AddStats_succeeds:
  assumes "0 \<le> window t" and "float64_size * window t \<le> max_alloc p"
    and "0 \<le> longTermWindow t" and "float64_size * longTermWindow t \<le> max_alloc p"
  shows "\<exists>t'. AddStats p t stats = Inr t'"
proof (cases "AddStats p t stats")
  case (Inl e)
  then show ?thesis using AddStats_panic [OF Inl] assms by (simp add: make_slice_def)
next
  case (Inr t')
  then show ?thesis by simp
qed

lemma append_evict_drop:
  assumes "int (length xs) \<le> bound"
  shows "append_evict bound xs x = drop (length (xs @ [x]) - nat bound) (xs @ [x])"
proof (cases "int (length xs) < bound")
  case True
  then have "length (xs @ [x]) - nat bound = 0" by simp
  then show ?thesis using True by (simp only: append_evict_fifo if_True drop_0)
next
  case False
  then have "length (xs @ [x]) - nat bound = Suc 0" using assms by simp
  moreover have "drop (Suc 0) (xs @ [x]) = tl (xs @ [x])" by (simp only: drop_Suc drop_0)
  ultimately show ?thesis using False by (simp only: append_evict_fifo if_False)
qed

lemma drop_window_append:
  "drop (length (drop (length ys - k) ys @ zs) - k) (drop (length ys - k) ys @ zs) =
   drop (length (ys @ zs) - k) (ys @ zs)"
proof -
  define d where "d = length ys - k"
  have a: "drop d ys @ zs = drop d (ys @ zs)" by (simp add: d_def)
  have b: "length (drop d (ys @ zs)) - k + d = length (ys @ zs) - k"
    by (simp add: d_def)
  show ?thesis
    unfolding d_def [symmetric] a drop_drop b ..
qed

lemma AddStats_all_history:
  assumes "0 \<le> longTermWindow t" and "float64_size * longTermWindow t \<le> max_alloc p"
    and "float64_size * window t \<le> max_alloc p" and "int (length (history t)) \<le> window t"
  shows "\<exists>t'. AddStats_all p t samples = Inr t' \<and>
              history t' = drop (length (history t @ samples) - nat (window t)) (history t @ samples) \<and>
              window t' = window t \<and> anomalyThreshold t' = anomalyThreshold t \<and>
              trendThreshold t' = trendThreshold t \<and> tempThreshold t' = tempThreshold t"
  using assms
proof (induction samples arbitrary: t)
  case Nil
  then show ?case by simp
next
  case (Cons stats rest)
  have w: "0 \<le> window t" using Cons.prems(4) by linarith
  obtain t1 where t1: "AddStats p t stats = Inr t1"
    using AddStats_succeeds [OF w Cons.prems(3) Cons.prems(1) Cons.prems(2)] by blast
  note f = AddStats_fields [OF t1]
  have h1: "history t1 = drop (length (history t @ [stats]) - nat (window t)) (history t @ [stats])"
    using f append_evict_drop [OF Cons.prems(4)] by simp
  have b1: "int (length (history t1)) \<le> window t1"
    using f append_evict_length_le [OF Cons.prems(4), of stats] by simp
  have l1: "0 \<le> longTermWindow t1" using f Cons.prems(1) by simp
  have l2: "float64_size * longTermWindow t1 \<le> max_alloc p" using f Cons.prems(2) by simp
  have l3: "float64_size * window t1 \<le> max_alloc p" using f Cons.prems(3) by simp
  obtain t' where t': "AddStats_all p t1 rest = Inr t'"
    and h': "history t' = drop (length (history t1 @ rest) - nat (window t1)) (history t1 @ rest)"
    and r': "window t' = window t1" "anomalyThreshold t' = anomalyThreshold t1"
       "trendThreshold t' = trendThreshold t1" "tempThreshold t' = tempThreshold t1"
    using Cons.IH [OF l1 l2 l3 b1] by blast
  have w1: "window t1 = window t" using f by simp
  have "history t' = drop (length ((history t @ [stats]) @ rest) - nat (window t)) ((history t @ [stats]) @ rest)"
    unfolding h' h1 w1 by (rule drop_window_append)
  then have "history t' = drop (length (history t @ stats # rest) - nat (window t)) (history t @ stats # rest)"
    by simp
  then show ?case using t1 t' r' f by simp
qed

lemma calculateTrend_scenario: "calculateTrend [10, 10, 10, 10, 95] = 17"
  by (simp add: calculateTrend_def trend_numerator_def trend_denominator_def)

lemma calculateStats_mean_scenario: "fst (calculateStats [10, 10, 10, 10, 95]) = 27"
  by (simp add: calculateStats_def Let_def)

lemma metric_of_scenario:
  "Mean (metric_of [10, 10, 10, 10, 95] 2 0.1) = 27 \<and> Anomaly (metric_of [10, 10, 10, 10, 95] 2 0.1)"
  using calculateStats_mean_scenario
  by (simp add: metric_of_def Let_def split_beta calculateTrend_scenario detectTrendAnomaly_def)

lemma calculateSystemStress_ge_cpu:
  "Mean (CPUUsage trend) > 20 \<Longrightarrow> 20 \<le> calculateSystemStress trend"
  using accumulated_risk_ge_cpu [of trend]
  by (simp add: calculateSystemStress_def min_go_def cpu_tier_def)

text \<open>
  C6: an analyzer with window 5 and the thresholds 2, 0.1 and 70, fed ten samples whose
  CPU load is 10 nine times and then 95, reports a CPU anomaly and a stress of at least
  20. The window holds the loads 10, 10, 10, 10, 95: their mean is 27 and their slope
  is 17. The hypotheses on the platform and on \<open>ltw\<close> say that the \<^verbatim>\<open>make\<close> calls of
  the constructor and of \<open>AddStats\<close> are within the allocation limit.
\<close>

theorem cpu_spike_scenario:
  assumes "map cpuUsage samples = replicate 9 10 @ [95]"
    and "0 \<le> ltw" and "float64_size * ltw \<le> max_alloc p"
    and "ptr_size p * 5 \<le> max_alloc p" and "float64_size * 5 \<le> max_alloc p"
  shows "\<exists>t0 t trend. NewWithFullOptions p 5 2 0.1 70 ltw = Inr t0 \<and>
           AddStats_all p t0 samples = Inr t \<and> Analyze t = Some trend \<and>
           Anomaly (CPUUsage trend) \<and> 20 \<le> SystemStress trend"
proof -
  define t0 where "t0 = \<lparr>history = [], window = 5, tempHistory = [], longTermTempHistory = [],
               anomalyThreshold = 2, trendThreshold = 0.1, tempThreshold = 70,
               longTermWindow = ltw\<rparr>"
  have new: "NewWithFullOptions p 5 2 0.1 70 ltw = Inr t0"
    using assms(4) by (simp add: NewWithFullOptions_def make_slice_def t0_def)
  have "length (map cpuUsage samples) = 10" unfolding assms(1) by simp
  then have len: "length samples = 10" by simp
  obtain t where run: "AddStats_all p t0 samples = Inr t"
    and h: "history t = drop (length (history t0 @ samples) - nat (window t0)) (history t0 @ samples)"
    and thr: "anomalyThreshold t = anomalyThreshold t0" "trendThreshold t = trendThreshold t0"
    using AddStats_all_history [of t0 p samples] assms(2,3,5) by (auto simp add: t0_def)
  have h5: "history t = drop 5 samples" using h len by (simp add: t0_def)
  have "map cpuUsage (history t) = drop 5 (map cpuUsage samples)"
    unfolding h5 by (simp add: drop_map)
  then have cpu: "map cpuUsage (history t) = [10, 10, 10, 10, 95]"
    unfolding assms(1) by (simp add: eval_nat_numeral)
  have l5: "length (history t) = 5" using h5 len by simp
  define trend0 where "trend0 = \<lparr>CPUUsage = metric_of (map cpuUsage (history t)) (anomalyThreshold t) (trendThreshold t),
                     MemoryUsage = metric_of (map memUsage (history t)) (anomalyThreshold t) (trendThreshold t),
                     ProcessCount = metric_of (map procCount (history t)) (anomalyThreshold t) (trendThreshold t),
                     t_Temperature = analyzeTemperature t,
                     t_Filesystem = analyzeFilesystem t,
                     SystemStress = 0\<rparr>"
  have an: "Analyze t = Some (trend0\<lparr>SystemStress := calculateSystemStress trend0\<rparr>)"
    using l5 by (simp add: Analyze_def Let_def trend0_def)
  have c0: "CPUUsage trend0 = metric_of [10, 10, 10, 10, 95] 2 0.1"
    by (simp add: trend0_def cpu thr t0_def)
  have "Mean (CPUUsage trend0) > 20" unfolding c0 using metric_of_scenario by simp
  then have "20 \<le> calculateSystemStress trend0" by (rule calculateSystemStress_ge_cpu)
  moreover have "Anomaly (CPUUsage trend0)" unfolding c0 using metric_of_scenario by simp
  ultimately show ?thesis using new run an by simp
qed

theorem cpu_spike_scenario_witness:
  "map cpuUsage scenario_samples = replicate 9 10 @ [95] \<and> (0::int) \<le> 50 \<and>
   float64_size * 50 \<le> max_alloc linux_amd64 \<and> ptr_size linux_amd64 * 5 \<le> max_alloc linux_amd64 \<and>
   float64_size * 5 \<le> max_alloc linux_amd64 \<and>
   (\<exists>t0 t trend. NewWithFullOptions linux_amd64 5 2 0.1 70 50 = Inr t0 \<and>
           AddStats_all linux_amd64 t0 scenario_samples = Inr t \<and> Analyze t = Some trend \<and>
           Anomaly (CPUUsage trend) \<and> 20 \<le> SystemStress trend)"
proof -
  have a: "map cpuUsage scenario_samples = replicate 9 10 @ [95]"
    by (simp add: scenario_samples_def cpu_sample_def cpuUsage_def)
  have b: "(0::int) \<le> 50" by simp
  have c: "float64_size * 50 \<le> max_alloc linux_amd64"
    by (simp add: float64_size_def linux_amd64_def)
  have d: "ptr_size linux_amd64 * 5 \<le> max_alloc linux_amd64"
    by (simp add: ptr_size_def linux_amd64_def)
  have e: "float64_size * 5 \<le> max_alloc linux_amd64"
    by (simp add: float64_size_def linux_amd64_def)
  show ?thesis using a b c d e cpu_spike_scenario [OF a b c d e] by simp
qed

section \<open>C7: the deduplication of processes\<close>

lemma dedup_inv_update:
  assumes "dedup_inv seen processMap"
  shows "dedup_inv (seen @ [proc]) (AList.update (Command proc) proc processMap)"
proof -
  have "list_all (\<lambda>(command, p). Command p = command \<and> p \<in> set (seen @ [proc])) processMap"
    using assms by (auto simp add: dedup_inv_def list_all_iff)
  then have "list_all (\<lambda>(command, p). Command p = command \<and> p \<in> set (seen @ [proc]))
               (AList.update (Command proc) proc processMap)"
    by (intro list_all_update) simp_all
  moreover have "distinct (map fst (AList.update (Command proc) proc processMap))"
    using assms by (simp add: dedup_inv_def distinct_update)
  moreover have "fst ` set (AList.update (Command proc) proc processMap) = Command ` set (seen @ [proc])"
    using assms by (auto simp add: dedup_inv_def dom_update)
  ultimately show ?thesis by (simp add: dedup_inv_def)
qed

lemma dedup_inv_keep:
  assumes "dedup_inv seen processMap" and "map_of processMap (Command proc) = Some existingProc"
  shows "dedup_inv (seen @ [proc]) processMap"
proof -
  have "(Command proc, existingProc) \<in> set processMap" using assms(2) by (rule map_of_SomeD)
  then have "Command proc \<in> fst ` set processMap" by force
  then show ?thesis using assms(1) by (auto simp add: dedup_inv_def list_all_iff)
qed

lemma dedup_inv_step:
  "dedup_inv seen processMap \<Longrightarrow> dedup_inv (seen @ [proc]) (dedup_step processMap proc)"
  by (auto simp add: dedup_step_def dedup_inv_update dedup_inv_keep split: option.splits)

lemma dedup_inv_foldl:
  "dedup_inv seen processMap \<Longrightarrow> dedup_inv (seen @ procs) (foldl dedup_step processMap procs)"
proof (induction procs arbitrary: seen processMap)
  case Nil
  then show ?case by simp
next
  case (Cons proc procs)
  have "dedup_inv ((seen @ [proc]) @ procs) (foldl dedup_step (dedup_step processMap proc) procs)"
    using Cons.prems by (intro Cons.IH dedup_inv_step)
  then show ?case by simp
qed

lemma dedup_inv_result: "dedup_inv procs (foldl dedup_step [] procs)"
  using dedup_inv_foldl [of "[]" "[]" procs] by (simp add: dedup_inv_def)

lemma dedup_commands:
  assumes "dedup_inv seen processMap"
  shows "map Command (map snd processMap) = map fst processMap"
  using assms by (auto simp add: dedup_inv_def list_all_iff)

lemma map_of_dedup_step:
  "map_of (dedup_step processMap proc) cmd = keep_step cmd (map_of processMap cmd) proc"
  by (auto simp add: dedup_step_def keep_step_def update_conv' split: option.splits)

lemma map_of_dedup_foldl:
  "map_of (foldl dedup_step processMap procs) cmd =
     foldl (keep_step cmd) (map_of processMap cmd) procs"
  by (induction procs arbitrary: processMap) (simp_all add: map_of_dedup_step)

lemma dedup_kept_entry:
  "p \<in> set (dedup_processes procs) \<longleftrightarrow> kept_entry (Command p) procs = Some p"
proof -
  define m where "m = foldl dedup_step [] procs"
  have inv: "dedup_inv procs m" unfolding m_def by (rule dedup_inv_result)
  then have d: "distinct (map fst m)" by (simp add: dedup_inv_def)
  have k: "kept_entry cmd procs = map_of m cmd" for cmd
    by (simp add: kept_entry_def m_def map_of_dedup_foldl)
  have s: "set (dedup_processes procs) = snd ` set m"
    by (simp add: dedup_processes_def m_def)
  have c: "Command b = a" if "(a, b) \<in> set m" for a b
    using inv that by (auto simp add: dedup_inv_def list_all_iff)
  have "p \<in> set (dedup_processes procs) \<longleftrightarrow> (Command p, p) \<in> set m"
  proof
    assume "p \<in> set (dedup_processes procs)"
    then obtain a where a: "(a, p) \<in> set m" unfolding s by auto
    then show "(Command p, p) \<in> set m" using c [OF a] by simp
  next
    assume "(Command p, p) \<in> set m"
    then show "p \<in> set (dedup_processes procs)" unfolding s by force
  qed
  also have "\<dots> \<longleftrightarrow> map_of m (Command p) = Some p"
    using d by simp
  finally show ?thesis by (simp only: k)
qed

lemma dedup_pair:
  assumes "Command p = Command q"
  shows "dedup_processes [p, q] =
           [if VSZPercent q > VSZPercent p \<or> CPUPercent q > CPUPercent p then q else p]"
  using assms by (simp add: dedup_processes_def dedup_step_def)

lemma dedup_two:
  assumes "Command p = Command q" and "VSZPercent p = 3" and "VSZPercent q = 8"
  shows "dedup_processes [p, q] = [q] \<and>
         dedup_processes [q, p] = [if CPUPercent p > CPUPercent q then p else q]"
  using assms by (simp add: dedup_processes_def dedup_step_def)

text \<open>
  C7 claims that of two entries of one command with \<open>vszPercent\<close> 3 and 8 the one
  with 8 is kept in either order. When the entry with 3 has the larger \<open>cpuPercent\<close>
  and comes second, it replaces the entry with 8.
\<close>

theorem dedup_order_counterexample:
  "Command (example_proc 8 0) = Command (example_proc 3 50) \<and>
   map VSZPercent (dedup_processes [example_proc 3 50, example_proc 8 0]) = [8] \<and>
   map VSZPercent (dedup_processes [example_proc 8 0, example_proc 3 50]) = [3]"
  by (simp add: dedup_processes_def dedup_step_def example_proc_def)

text \<open>
  C7 as amended: the processes of every sample of the copied history are the
  deduplicated processes of the sample; the result has exactly one entry per command of
  the sample, each an entry of the sample, and the entry of a command is the one that
  the scan \<open>kept_entry\<close> keeps: the first entry of the command, replaced by every later
  entry of the command whose \<open>vszPercent\<close> or \<open>cpuPercent\<close> is strictly larger than
  that of the entry kept so far. Of two entries of one command the second is kept
  exactly when one of its two percentages is strictly larger; with \<open>vszPercent\<close> 3 and
  8, the one with 8 is kept when it comes second, and when it comes first it is kept
  unless the other has the larger \<open>cpuPercent\<close>.
\<close>

theorem dedup_one_entry_per_command:
  "map Processes (deduplicatedHistory t) =
     map (\<lambda>stats. dedup_processes (Processes stats)) (history t) \<and>
   distinct (map Command (dedup_processes procs)) \<and>
   set (map Command (dedup_processes procs)) = set (map Command procs) \<and>
   set (dedup_processes procs) \<subseteq> set procs \<and>
   (\<forall>proc. proc \<in> set (dedup_processes procs) \<longleftrightarrow>
             kept_entry (Command proc) procs = Some proc) \<and>
   (Command p = Command q \<longrightarrow>
      dedup_processes [p, q] =
        [if VSZPercent q > VSZPercent p \<or> CPUPercent q > CPUPercent p then q else p]) \<and>
   (Command p = Command q \<and> VSZPercent p = 3 \<and> VSZPercent q = 8 \<longrightarrow>
      dedup_processes [p, q] = [q] \<and>
      dedup_processes [q, p] = [if CPUPercent p > CPUPercent q then p else q])"
proof -
  note inv = dedup_inv_result [of procs]
  have c: "map Command (dedup_processes procs) = map fst (foldl dedup_step [] procs)"
    unfolding dedup_processes_def using inv by (rule dedup_commands)
  have h: "map Processes (deduplicatedHistory t) =
     map (\<lambda>stats. dedup_processes (Processes stats)) (history t)"
    by (simp add: deduplicatedHistory_def dedup_stats_def)
  have d: "distinct (map Command (dedup_processes procs))"
    unfolding c using inv by (simp add: dedup_inv_def)
  have e: "set (map Command (dedup_processes procs)) = set (map Command procs)"
    unfolding c using inv by (simp add: dedup_inv_def)
  have f: "set (dedup_processes procs) \<subseteq> set procs"
    using inv by (auto simp add: dedup_processes_def dedup_inv_def list_all_iff)
  have g: "\<forall>proc. proc \<in> set (dedup_processes procs) \<longleftrightarrow>
             kept_entry (Command proc) procs = Some proc"
    by (intro allI) (rule dedup_kept_entry)
  have i: "Command p = Command q \<longrightarrow>
      dedup_processes [p, q] =
        [if VSZPercent q > VSZPercent p \<or> CPUPercent q > CPUPercent p then q else p]"
    by (intro impI) (rule dedup_pair)
  have j: "Command p = Command q \<and> VSZPercent p = 3 \<and> VSZPercent q = 8 \<longrightarrow>
      dedup_processes [p, q] = [q] \<and>
      dedup_processes [q, p] = [if CPUPercent p > CPUPercent q then p else q]"
    using dedup_two [of p q] by simp
  show ?thesis by (intro conjI h d e f g i j)
qed

theorem dedup_one_entry_per_command_witness:
  "Command (example_proc 3 50) = Command (example_proc 8 0) \<and>
   VSZPercent (example_proc 3 50) = 3 \<and> VSZPercent (example_proc 8 0) = 8 \<and>
   dedup_processes [example_proc 3 50, example_proc 8 0] = [example_proc 8 0] \<and>
   dedup_processes [example_proc 8 0, example_proc 3 50] = [example_proc 3 50] \<and>
   distinct (map Command (dedup_processes [example_proc 3 50, example_proc 8 0])) \<and>
   Command (tied_proc 1) = Command (tied_proc 2) \<and>
   dedup_processes [tied_proc 1, tied_proc 2] = [tied_proc 1] \<and>
   kept_entry ''app'' [tied_proc 1, tied_proc 2] = Some (tied_proc 1)"
proof -
  have a: "Command (tied_proc 1) = Command (tied_proc 2)" by (simp add: tied_proc_def)
  note th = dedup_one_entry_per_command [where procs = "[tied_proc 1, tied_proc 2]"
      and p = "tied_proc 1" and q = "tied_proc 2"]
  have "Command (tied_proc 1) = Command (tied_proc 2) \<longrightarrow>
      dedup_processes [tied_proc 1, tied_proc 2] =
        [if VSZPercent (tied_proc 2) > VSZPercent (tied_proc 1) \<or>
            CPUPercent (tied_proc 2) > CPUPercent (tied_proc 1)
         then tied_proc 2 else tied_proc 1]"
    by (rule th [THEN conjunct2, THEN conjunct2, THEN conjunct2, THEN conjunct2,
          THEN conjunct2, THEN conjunct1])
  then have b: "dedup_processes [tied_proc 1, tied_proc 2] = [tied_proc 1]"
    by (simp add: tied_proc_def)
  have "\<forall>proc. proc \<in> set (dedup_processes [tied_proc 1, tied_proc 2]) \<longleftrightarrow>
          kept_entry (Command proc) [tied_proc 1, tied_proc 2] = Some proc"
    by (rule th [THEN conjunct2, THEN conjunct2, THEN conjunct2, THEN conjunct2,
          THEN conjunct1])
  then have "tied_proc 1 \<in> set (dedup_processes [tied_proc 1, tied_proc 2]) \<longleftrightarrow>
          kept_entry (Command (tied_proc 1)) [tied_proc 1, tied_proc 2] = Some (tied_proc 1)"
    by (rule spec)
  then have "kept_entry (Command (tied_proc 1)) [tied_proc 1, tied_proc 2] = Some (tied_proc 1)"
    unfolding b by simp
  then have c: "kept_entry ''app'' [tied_proc 1, tied_proc 2] = Some (tied_proc 1)"
    by (simp add: tied_proc_def)
  show ?thesis
    using a b c dedup_one_entry_per_command [where procs = "[example_proc 3 50, example_proc 8 0]"
      and p = "example_proc 3 50" and q = "example_proc 8 0"]
    by (simp add: example_proc_def)
qed

section \<open>C8: the defaults of the constructors\<close>

lemma wrap_int_id:
  assumes "0 < int_bits p" and "0 \<le> i" and "i < 2 ^ (int_bits p - 1)"
  shows "wrap_int p i = i"
proof -
  obtain n where n: "int_bits p = Suc n" using assms(1) by (cases "int_bits p") auto
  have "(i + 2 ^ n) mod (2 * 2 ^ n) = i + 2 ^ n"
    using assms(2,3) by (simp add: n)
  then show ?thesis by (simp add: wrap_int_def n)
qed

text \<open>
  C8 claims that the constructor sets \<open>longTermWindow\<close> to ten times the window.
  \<open>New\<close> with the window 5 sets it to 100, on either platform.
\<close>

theorem New_longTermWindow_counterexample:
  "New linux_amd64 5 =
     Inr \<lparr>history = [], window = 5, tempHistory = [], longTermTempHistory = [],
          anomalyThreshold = 2, trendThreshold = 0.1, tempThreshold = 70,
          longTermWindow = 100\<rparr> \<and>
   New linux_arm 5 =
     Inr \<lparr>history = [], window = 5, tempHistory = [], longTermTempHistory = [],
          anomalyThreshold = 2, trendThreshold = 0.1, tempThreshold = 70,
          longTermWindow = 100\<rparr> \<and>
   (100::int) \<noteq> 5 * 10"
  by (simp add: New_def make_slice_def linux_amd64_def linux_arm_def ptr_size_def)

text \<open>
  C8 as amended: the analyzer that \<open>New\<close> returns has the thresholds 2, 0.1 and 70
  and the long window 100, whatever the window; the analyzer that \<open>NewWithOptions\<close>
  returns has the two thresholds of its caller, the temperature threshold 70 and the
  long window \<^verbatim>\<open>window * 10\<close> as Go's \<^verbatim>\<open>int\<close> computes it, which is ten times the window
  whenever that fits the \<^verbatim>\<open>int\<close>.
\<close>

theorem constructor_defaults:
  "(New p w = Inr t \<longrightarrow>
      window t = w \<and> anomalyThreshold t = 2 \<and> trendThreshold t = 0.1 \<and>
      tempThreshold t = 70 \<and> longTermWindow t = 100) \<and>
   (NewWithOptions p w a tr = Inr t' \<longrightarrow>
      window t' = w \<and> anomalyThreshold t' = a \<and> trendThreshold t' = tr \<and>
      tempThreshold t' = 70 \<and> longTermWindow t' = wrap_int p (w * 10) \<and>
      (0 < int_bits p \<and> w * 10 < 2 ^ (int_bits p - 1) \<longrightarrow> longTermWindow t' = w * 10))"
proof -
  have "NewWithOptions p w a tr = Inr t' \<Longrightarrow> 0 < int_bits p \<Longrightarrow>
        w * 10 < 2 ^ (int_bits p - 1) \<Longrightarrow> wrap_int p (w * 10) = w * 10"
    by (intro wrap_int_id) (auto simp add: NewWithOptions_def make_slice_def split: if_splits)
  then show ?thesis
    by (auto simp add: New_def NewWithOptions_def make_slice_def split: if_splits)
qed

theorem constructor_defaults_witness:
  "(\<exists>t. New linux_amd64 5 = Inr t \<and> window t = 5 \<and> anomalyThreshold t = 2 \<and>
        trendThreshold t = 0.1 \<and> tempThreshold t = 70 \<and> longTermWindow t = 100) \<and>
   (\<exists>t'. NewWithOptions linux_amd64 5 3 0.2 = Inr t' \<and> 0 < int_bits linux_amd64 \<and>
        (5::int) * 10 < 2 ^ (int_bits linux_amd64 - 1) \<and> window t' = 5 \<and>
        anomalyThreshold t' = 3 \<and> trendThreshold t' = 0.2 \<and> tempThreshold t' = 70 \<and>
        longTermWindow t' = 50)"
proof -
  obtain t where t: "New linux_amd64 5 = Inr t"
    by (simp add: New_def make_slice_def linux_amd64_def ptr_size_def)
  obtain t' where t': "NewWithOptions linux_amd64 5 3 0.2 = Inr t'"
    by (simp add: NewWithOptions_def make_slice_def linux_amd64_def ptr_size_def)
  have b: "0 < int_bits linux_amd64 \<and> (5::int) * 10 < 2 ^ (int_bits linux_amd64 - 1)"
    by (simp add: linux_amd64_def)
  show ?thesis
    using t t' b constructor_defaults [of linux_amd64 5 t 3 "0.2" t'] by simp
qed

section \<open>C9: when a tick writes a crash dump\<close>

text \<open>
  C9: on a tick where \<open>Analyze\<close> returns a report, the crash dump is written exactly
  when the stress is at least 85 or one of the seven flags is set.
\<close>

theorem crash_dump_trigger:
  assumes "tick p analyzer stats = Inr (analyzer', actions)" and "Analyze analyzer' = Some trend"
  shows "SaveCrashDump \<in> set actions \<longleftrightarrow>
           (85 \<le> SystemStress trend \<or> Anomaly (CPUUsage trend) \<or> Anomaly (MemoryUsage trend) \<or>
            Anomaly (ProcessCount trend) \<or> Anomaly (t_Temperature trend) \<or>
            ThresholdExceeded (t_Temperature trend) \<or> f_Critical (t_Filesystem trend) \<or>
            f_Anomaly (t_Filesystem trend))"
proof -
  have "actions = tick_actions (Some trend)"
    using assms by (auto simp add: tick_def split: sum.splits)
  then show ?thesis
    by (auto simp add: tick_actions_def crash_condition_def)
qed

theorem crash_dump_trigger_witness:
  "\<exists>analyzer' actions trend.
     tick linux_amd64 one_sample_analyzer (mem_sample 0 0) = Inr (analyzer', actions) \<and>
     Analyze analyzer' = Some trend \<and>
     (SaveCrashDump \<in> set actions \<longleftrightarrow>
        (85 \<le> SystemStress trend \<or> Anomaly (CPUUsage trend) \<or> Anomaly (MemoryUsage trend) \<or>
         Anomaly (ProcessCount trend) \<or> Anomaly (t_Temperature trend) \<or>
         ThresholdExceeded (t_Temperature trend) \<or> f_Critical (t_Filesystem trend) \<or>
         f_Anomaly (t_Filesystem trend)))"
proof -
  define a' where "a' = one_sample_analyzer\<lparr>history := [mem_sample 0 0, mem_sample 0 0]\<rparr>"
  have add: "AddStats linux_amd64 one_sample_analyzer (mem_sample 0 0) = Inr a'"
    by (simp add: AddStats_def one_sample_analyzer_def mem_sample_def append_evict_def a'_def)
  have t: "tick linux_amd64 one_sample_analyzer (mem_sample 0 0) = Inr (a', tick_actions (Analyze a'))"
    by (simp add: tick_def add)
  obtain trend where an: "Analyze a' = Some trend"
    by (simp add: Analyze_def a'_def Let_def)
  show ?thesis using t an crash_dump_trigger [OF t an] by blast
qed

section \<open>C10: a sample whose total memory is 0\<close>

text \<open>
  C10 claims that the summary's used-percent of such a sample is a NaN. With one byte
  used it is \<open>+\<infinity>\<close>.
\<close>

theorem memory_zero_total_counterexample:
  "mem_Total (Memory (mem_sample 0 1)) = 0 \<and>
   UsedPc (Update_Memory (mem_sample 0 1)) = PosInf \<and>
   UsedPc (Update_Memory (mem_sample 0 1)) \<noteq> NaN"
  by (simp add: mem_sample_def Update_Memory_def fdiv_def)

text \<open>
  C10 as amended: for a sample whose total memory is 0, \<open>Analyze\<close> records the usage 0
  (the division is guarded), and the summary's used-percent is not finite: a NaN when
  the used memory is 0 as well, \<open>+\<infinity>\<close> otherwise.
\<close>

theorem memory_zero_total:
  assumes "mem_Total (Memory stats) = 0"
  shows "memUsage stats = 0 \<and>
         UsedPc (Update_Memory stats) = (if mem_Used (Memory stats) = 0 then NaN else PosInf)"
proof -
  define u where "u = real_of_int (uint (mem_Used (Memory stats)))"
  have u0: "u = 0 \<longleftrightarrow> mem_Used (Memory stats) = 0"
    unfolding u_def using uint_0_iff [of "mem_Used (Memory stats)"] by linarith
  have u1: "0 \<le> u"
    unfolding u_def using uint_ge_0 [of "mem_Used (Memory stats)"] by linarith
  have "UsedPc (Update_Memory stats) = fmul (fdiv u 0) 100"
    using assms by (simp add: Update_Memory_def Let_def u_def)
  also have "\<dots> = (if mem_Used (Memory stats) = 0 then NaN else PosInf)"
    using u0 u1 by (auto simp add: fdiv_def)
  finally show ?thesis using assms by (simp add: memUsage_def)
qed

theorem memory_zero_total_witness:
  "mem_Total (Memory (mem_sample 0 0)) = 0 \<and> memUsage (mem_sample 0 0) = 0 \<and>
   UsedPc (Update_Memory (mem_sample 0 0)) = NaN"
proof -
  have a: "mem_Total (Memory (mem_sample 0 0)) = 0" by (simp add: mem_sample_def)
  show ?thesis using a memory_zero_total [OF a] by (simp add: mem_sample_def)
qed

end
